theory Spec2Isabelle
  imports Complex_Main "HOL-Library.AList"
begin

section \<open>JavaScript values\<close>

text \<open>
  The backend is an Express application: a request body is whatever
  \<^verbatim>\<open>express.json()\<close> parsed, so the values the handlers see are JSON values, plus
  \<^verbatim>\<open>undefined\<close> for a property that is not there. A number is an IEEE double; the
  model keeps the three shapes the comparisons of the code distinguish (not-a-number, the
  two infinities, a finite value) and takes the finite values as reals, of which the doubles
  are a subset. The sign of zero is not kept: no operation of the code below tells
  \<^verbatim>\<open>-0\<close> from \<^verbatim>\<open>0\<close>.
  An object is its list of own properties, each key once.
\<close>

datatype jsnum = NaN | Fin real | PosInfinity | NegInfinity

datatype jsval =
    JUndefined
  | JNull
  | JBool bool
  | JNumber jsnum
  | JString string
  | JArray "jsval list"
  | JObject "(string \<times> jsval) list"

text \<open>An exception object: the \<^verbatim>\<open>code\<close> property the AWS SDK sets on its errors
  (absent on a \<^verbatim>\<open>TypeError\<close> or \<^verbatim>\<open>SyntaxError\<close>) and the message.\<close>

record js_error =
  code :: "string option"
  message :: string

text \<open>Evaluation that may throw: \<open>Inl\<close> is the exception, \<open>Inr\<close> the value.\<close>

definition bindE :: "js_error + 'a \<Rightarrow> ('a \<Rightarrow> js_error + 'b) \<Rightarrow> js_error + 'b" where
  "bindE m f = (case m of Inl e \<Rightarrow> Inl e | Inr x \<Rightarrow> f x)"

text \<open>The two \<^verbatim>\<open>TypeError\<close>s the code can run into, with V8's wording.\<close>

definition primitive_TypeError :: js_error where
  "primitive_TypeError = \<lparr>code = None, message = ''Cannot convert object to primitive value''\<rparr>"

definition nullish_TypeError :: "jsval \<Rightarrow> string \<Rightarrow> js_error" where
  "nullish_TypeError v k =
     \<lparr>code = None,
      message = ''Cannot read properties of '' @ (if v = JNull then ''null'' else ''undefined'')
                @ '' (reading '' @ [CHR 0x27] @ k @ [CHR 0x27] @ '')''\<rparr>"

text \<open>
  Property read \<^verbatim>\<open>v[k]\<close> for the keys the code reads (field names, \<^verbatim>\<open>patients\<close>,
  \<^verbatim>\<open>risk_level\<close>): none of them is inherited from a prototype, so the read finds an own
  property of an object or nothing. Reading from \<^verbatim>\<open>undefined\<close> or \<^verbatim>\<open>null\<close> throws;
  \<open>is_nullish\<close> is tested where the code does its first read.
\<close>

definition is_nullish :: "jsval \<Rightarrow> bool" where
  "is_nullish v = (v = JUndefined \<or> v = JNull)"

fun js_get :: "jsval \<Rightarrow> string \<Rightarrow> jsval" where
  "js_get (JObject ps) k = (case map_of ps k of None \<Rightarrow> JUndefined | Some v \<Rightarrow> v)"
| "js_get _ k = JUndefined"

definition has_own :: "(string \<times> jsval) list \<Rightarrow> string \<Rightarrow> bool" where
  "has_own ps k = (map_of ps k \<noteq> None)"

subsection \<open>Numeric coercion\<close>

text \<open>
  \<^verbatim>\<open>Number(v)\<close>, \<^verbatim>\<open>isNaN(v)\<close> and \<^verbatim>\<open>v < 18\<close> all go through ECMAScript's ToNumber.
  On a string it is StringToNumber, which the definitions take as the parameter \<open>s2n\<close>;
  \<open>StringToNumber\<close> below is the instance used on concrete inputs.
  On an object it is ToPrimitive first. A JSON value has no callable property, so for a
  plain object \<^verbatim>\<open>valueOf\<close> never yields a primitive and \<^verbatim>\<open>toString\<close> is either the
  inherited one (the text \<^verbatim>\<open>[object Object]\<close>) or an own property, which is not callable:
  then the conversion throws a \<^verbatim>\<open>TypeError\<close>. An array is converted through
  \<^verbatim>\<open>join(",")\<close>, which writes \<^verbatim>\<open>undefined\<close> and \<^verbatim>\<open>null\<close> as the empty text and
  converts every other element to a string. Two facts of the language stand in for the
  text of a number: a number written out and read back is the same number, and no text with
  a comma in it is a numeric literal.
\<close>

fun ToString_throws :: "jsval \<Rightarrow> bool" where
  "ToString_throws (JObject ps) = has_own ps ''toString''"
| "ToString_throws (JArray xs) = list_ex ToString_throws xs"
| "ToString_throws _ = False"

fun ToNumber :: "(string \<Rightarrow> jsnum) \<Rightarrow> jsval \<Rightarrow> js_error + jsnum" where
  "ToNumber s2n JUndefined = Inr NaN"
| "ToNumber s2n JNull = Inr (Fin 0)"
| "ToNumber s2n (JBool b) = Inr (Fin (if b then 1 else 0))"
| "ToNumber s2n (JNumber n) = Inr n"
| "ToNumber s2n (JString s) = Inr (s2n s)"
| "ToNumber s2n (JObject ps) =
     (if has_own ps ''toString'' then Inl primitive_TypeError
      else Inr (s2n ''[object Object]''))"
| "ToNumber s2n (JArray []) = Inr (s2n [])"
| "ToNumber s2n (JArray [JUndefined]) = Inr (s2n [])"
| "ToNumber s2n (JArray [JNull]) = Inr (s2n [])"
| "ToNumber s2n (JArray [JBool b]) = Inr (s2n (if b then ''true'' else ''false''))"
| "ToNumber s2n (JArray [JNumber n]) = Inr n"
| "ToNumber s2n (JArray [JString s]) = Inr (s2n s)"
| "ToNumber s2n (JArray [JArray ys]) = ToNumber s2n (JArray ys)"
| "ToNumber s2n (JArray [JObject ps]) = ToNumber s2n (JObject ps)"
| "ToNumber s2n (JArray (x # y # zs)) =
     (if list_ex ToString_throws (x # y # zs) then Inl primitive_TypeError else Inr NaN)"

definition Number :: "(string \<Rightarrow> jsnum) \<Rightarrow> jsval \<Rightarrow> js_error + jsnum" where
  "Number s2n v = ToNumber s2n v"

definition isNaN :: "(string \<Rightarrow> jsnum) \<Rightarrow> jsval \<Rightarrow> js_error + bool" where
  "isNaN s2n v = bindE (ToNumber s2n v) (\<lambda>n. Inr (n = NaN))"

text \<open>\<^verbatim>\<open>a < b\<close> on numbers: false as soon as one side is not a number.\<close>

fun num_less :: "jsnum \<Rightarrow> jsnum \<Rightarrow> bool" where
  "num_less NaN _ = False"
| "num_less _ NaN = False"
| "num_less (Fin a) (Fin b) = (a < b)"
| "num_less (Fin a) PosInfinity = True"
| "num_less (Fin a) NegInfinity = False"
| "num_less PosInfinity _ = False"
| "num_less NegInfinity NegInfinity = False"
| "num_less NegInfinity _ = True"

text \<open>\<^verbatim>\<open>v < c\<close> and \<^verbatim>\<open>v > c\<close> for a numeric literal \<open>c\<close>: the other side being a
  number, \<open>v\<close> is converted to one.\<close>

definition js_lt :: "(string \<Rightarrow> jsnum) \<Rightarrow> jsval \<Rightarrow> real \<Rightarrow> js_error + bool" where
  "js_lt s2n v c = bindE (ToNumber s2n v) (\<lambda>n. Inr (num_less n (Fin c)))"

definition js_gt :: "(string \<Rightarrow> jsnum) \<Rightarrow> jsval \<Rightarrow> real \<Rightarrow> js_error + bool" where
  "js_gt s2n v c = bindE (ToNumber s2n v) (\<lambda>n. Inr (num_less (Fin c) n))"

text \<open>\<^verbatim>\<open>[0, 1].includes(n)\<close>: SameValueZero against each element.\<close>

definition includes01 :: "jsnum \<Rightarrow> bool" where
  "includes01 n = (n = Fin 0 \<or> n = Fin 1)"

subsection \<open>Texts and numbers\<close>

text \<open>
  StringToNumber (ECMAScript, StringNumericLiteral): white space around the literal is
  dropped, the empty text is \<open>0\<close>, a literal is a signed decimal with an optional
  fraction and exponent, \<^verbatim>\<open>Infinity\<close>, or an unsigned integer in base 16, 8 or 2; any
  other text is not a number. The value is the mathematical value of the literal (the
  language rounds it to the nearest double, which changes nothing for literals that are
  doubles already). Texts are over the code units below 256.
\<close>

definition isStrWhiteSpaceChar :: "char \<Rightarrow> bool" where
  "isStrWhiteSpaceChar c =
     (c \<in> set [CHR 0x09, CHR 0x0A, CHR 0x0B, CHR 0x0C, CHR 0x0D, CHR 0x20, CHR 0xA0])"

definition trim :: "string \<Rightarrow> string" where
  "trim s = rev (dropWhile isStrWhiteSpaceChar (rev (dropWhile isStrWhiteSpaceChar s)))"

definition digit_value :: "nat \<Rightarrow> char \<Rightarrow> nat option" where
  "digit_value base c =
     (let n = (of_char c :: nat);
          d = (if 48 \<le> n \<and> n \<le> 57 then Some (n - 48)
               else if 97 \<le> n \<and> n \<le> 102 then Some (n - 87)
               else if 65 \<le> n \<and> n \<le> 70 then Some (n - 55)
               else None)
      in case d of None \<Rightarrow> None | Some v \<Rightarrow> if v < base then Some v else None)"

fun digits_from :: "nat \<Rightarrow> nat \<Rightarrow> string \<Rightarrow> nat option" where
  "digits_from base acc [] = Some acc"
| "digits_from base acc (c # cs) =
     (case digit_value base c of
        None \<Rightarrow> None
      | Some d \<Rightarrow> digits_from base (acc * base + d) cs)"

definition Digits :: "nat \<Rightarrow> string \<Rightarrow> nat option" where
  "Digits base s = (if s = [] then None else digits_from base 0 s)"

definition NonDecimalIntegerLiteral :: "string \<Rightarrow> nat option" where
  "NonDecimalIntegerLiteral s =
     (case s of
        c0 # c1 # cs \<Rightarrow>
          if c0 \<noteq> CHR ''0'' then None
          else if c1 = CHR ''x'' \<or> c1 = CHR ''X'' then Digits 16 cs
          else if c1 = CHR ''o'' \<or> c1 = CHR ''O'' then Digits 8 cs
          else if c1 = CHR ''b'' \<or> c1 = CHR ''B'' then Digits 2 cs
          else None
      | _ \<Rightarrow> None)"

definition ExponentPart :: "string \<Rightarrow> int option" where
  "ExponentPart s =
     (case s of
        [] \<Rightarrow> None
      | c # cs \<Rightarrow>
          if c = CHR ''+'' then map_option int (Digits 10 cs)
          else if c = CHR ''-'' then map_option (\<lambda>n. - int n) (Digits 10 cs)
          else map_option int (Digits 10 s))"

definition scale10 :: "real \<Rightarrow> int \<Rightarrow> real" where
  "scale10 m e = (if 0 \<le> e then m * 10 ^ nat e else m / 10 ^ nat (- e))"

definition Mantissa :: "string \<Rightarrow> real option" where
  "Mantissa m =
     (let ip = takeWhile (\<lambda>c. c \<noteq> CHR ''.'') m;
          rest = dropWhile (\<lambda>c. c \<noteq> CHR ''.'') m
      in if rest = [] then map_option real (Digits 10 ip)
         else
           (let fp = tl rest
            in if ip = [] \<and> fp = [] then None
               else case (digits_from 10 0 ip, digits_from 10 0 fp) of
                      (Some i, Some f) \<Rightarrow> Some (real i + real f / 10 ^ length fp)
                    | _ \<Rightarrow> None))"

definition StrUnsignedDecimalLiteral :: "string \<Rightarrow> jsnum" where
  "StrUnsignedDecimalLiteral s =
     (if s = ''Infinity'' then PosInfinity
      else
        (let isE = (\<lambda>c. c = CHR ''e'' \<or> c = CHR ''E'');
             m = takeWhile (\<lambda>c. \<not> isE c) s;
             rest = dropWhile (\<lambda>c. \<not> isE c) s;
             ex = (if rest = [] then Some 0 else ExponentPart (tl rest))
         in case (Mantissa m, ex) of
              (Some v, Some e) \<Rightarrow> Fin (scale10 v e)
            | _ \<Rightarrow> NaN))"

fun negate :: "jsnum \<Rightarrow> jsnum" where
  "negate NaN = NaN"
| "negate (Fin x) = Fin (- x)"
| "negate PosInfinity = NegInfinity"
| "negate NegInfinity = PosInfinity"

definition StringToNumber :: "string \<Rightarrow> jsnum" where
  "StringToNumber str =
     (let s = trim str
      in case s of
           [] \<Rightarrow> Fin 0
         | c # cs \<Rightarrow>
             (case NonDecimalIntegerLiteral s of
                Some n \<Rightarrow> Fin (real n)
              | None \<Rightarrow>
                  if c = CHR ''+'' then StrUnsignedDecimalLiteral cs
                  else if c = CHR ''-'' then negate (StrUnsignedDecimalLiteral cs)
                  else StrUnsignedDecimalLiteral s))"

text \<open>The decimal text of an integer, as a template literal writes \<^verbatim>\<open>Date.now()\<close>
  and an array index.\<close>

definition digit_char :: "nat \<Rightarrow> char" where
  "digit_char d = ''0123456789'' ! d"

fun show_nat :: "nat \<Rightarrow> string" where
  "show_nat n =
     (if n < 10 then [digit_char n]
      else show_nat (n div 10) @ [digit_char (n mod 10)])"

declare show_nat.simps [simp del]

definition show_int :: "int \<Rightarrow> string" where
  "show_int i = (if i < 0 then CHR ''-'' # show_nat (nat (- i)) else show_nat (nat i))"

section \<open>The field validator\<close>

text \<open>
  \<^verbatim>\<open>validatePredictionInput\<close> of \<^verbatim>\<open>backend/middleware/validation.js\<close> is an Express
  middleware: it either answers the request itself (\<^verbatim>\<open>res.status(..).json(..)\<close>) or
  stores the normalized record in \<^verbatim>\<open>req.body\<close> and calls \<^verbatim>\<open>next()\<close>. The object
  given to \<^verbatim>\<open>res.json\<close> is kept as it is built; a property holding \<^verbatim>\<open>undefined\<close> is
  left out when it is written as JSON. The calls of the logger are not part of the model:
  they change neither the answer nor the traffic to the endpoint.
\<close>

record http_response =
  status :: nat
  json_body :: jsval

datatype middleware_result = Responded http_response | Next jsval

definition requiredFields :: "string list" where
  "requiredFields =
     [''Age'', ''BMI'', ''Waist_Circumference_cm'', ''Fasting_Glucose_mg_dL'',
      ''HbA1c_percent'', ''Systolic_BP_mmHg'', ''Diastolic_BP_mmHg'',
      ''Family_History_Diabetes'', ''Hypertension'', ''Physical_Activity_Hours_Week'']"

definition is_missing :: "jsval \<Rightarrow> bool" where
  "is_missing v = (v = JUndefined \<or> v = JNull \<or> v = JString [])"

definition missingFields :: "jsval \<Rightarrow> string list" where
  "missingFields patientData =
     filter (\<lambda>field. is_missing (js_get patientData field)) requiredFields"

text \<open>\<^verbatim>\<open>isNaN(v) || v < lo || v > hi\<close>, the later operands evaluated only when the
  earlier ones are false.\<close>

definition out_of_range :: "(string \<Rightarrow> jsnum) \<Rightarrow> jsval \<Rightarrow> real \<Rightarrow> real \<Rightarrow> js_error + bool" where
  "out_of_range s2n v lo hi =
     bindE (isNaN s2n v) (\<lambda>nan.
       if nan then Inr True
       else bindE (js_lt s2n v lo) (\<lambda>below.
         if below then Inr True else js_gt s2n v hi))"

text \<open>\<^verbatim>\<open>![0, 1].includes(Number(v))\<close>\<close>

definition not_binary :: "(string \<Rightarrow> jsnum) \<Rightarrow> jsval \<Rightarrow> js_error + bool" where
  "not_binary s2n v = bindE (Number s2n v) (\<lambda>n. Inr (\<not> includes01 n))"

text \<open>\<^verbatim>\<open>if (cond) { validationErrors.push(msg); }\<close>\<close>

definition push_if :: "js_error + bool \<Rightarrow> string \<Rightarrow> string list \<Rightarrow> js_error + string list" where
  "push_if cond msg errs = bindE cond (\<lambda>c. Inr (if c then errs @ [msg] else errs))"

definition validationErrors :: "(string \<Rightarrow> jsnum) \<Rightarrow> jsval \<Rightarrow> js_error + string list" where
  "validationErrors s2n patientData =
     bindE (push_if (out_of_range s2n (js_get patientData ''Age'') 18 120)
              ''Age must be a number between 18 and 120'' []) (\<lambda>errs.
     bindE (push_if (out_of_range s2n (js_get patientData ''BMI'') 10 60)
              ''BMI must be a number between 10 and 60'' errs) (\<lambda>errs.
     bindE (push_if (out_of_range s2n (js_get patientData ''Waist_Circumference_cm'') 30 200)
              ''Waist circumference must be between 30 and 200 cm'' errs) (\<lambda>errs.
     bindE (push_if (out_of_range s2n (js_get patientData ''Fasting_Glucose_mg_dL'') 50 500)
              ''Fasting glucose must be between 50 and 500 mg/dL'' errs) (\<lambda>errs.
     bindE (push_if (out_of_range s2n (js_get patientData ''HbA1c_percent'') 3 20)
              ''HbA1c must be between 3 and 20%'' errs) (\<lambda>errs.
     bindE (push_if (out_of_range s2n (js_get patientData ''Systolic_BP_mmHg'') 70 300)
              ''Systolic BP must be between 70 and 300 mmHg'' errs) (\<lambda>errs.
     bindE (push_if (out_of_range s2n (js_get patientData ''Diastolic_BP_mmHg'') 40 200)
              ''Diastolic BP must be between 40 and 200 mmHg'' errs) (\<lambda>errs.
     bindE (push_if (not_binary s2n (js_get patientData ''Family_History_Diabetes''))
              ''Family_History_Diabetes must be 0 or 1'' errs) (\<lambda>errs.
     bindE (push_if (not_binary s2n (js_get patientData ''Hypertension''))
              ''Hypertension must be 0 or 1'' errs) (\<lambda>errs.
     push_if (out_of_range s2n (js_get patientData ''Physical_Activity_Hours_Week'') 0 50)
              ''Physical activity must be between 0 and 50 hours per week'' errs)))))))))"

text \<open>The object literal assigned to \<^verbatim>\<open>req.body\<close>: ten calls of \<^verbatim>\<open>Number\<close>, in order.\<close>

definition normalized :: "(string \<Rightarrow> jsnum) \<Rightarrow> jsval \<Rightarrow> js_error + jsval" where
  "normalized s2n patientData =
     bindE (Number s2n (js_get patientData ''Age'')) (\<lambda>n1.
     bindE (Number s2n (js_get patientData ''BMI'')) (\<lambda>n2.
     bindE (Number s2n (js_get patientData ''Waist_Circumference_cm'')) (\<lambda>n3.
     bindE (Number s2n (js_get patientData ''Fasting_Glucose_mg_dL'')) (\<lambda>n4.
     bindE (Number s2n (js_get patientData ''HbA1c_percent'')) (\<lambda>n5.
     bindE (Number s2n (js_get patientData ''Systolic_BP_mmHg'')) (\<lambda>n6.
     bindE (Number s2n (js_get patientData ''Diastolic_BP_mmHg'')) (\<lambda>n7.
     bindE (Number s2n (js_get patientData ''Family_History_Diabetes'')) (\<lambda>n8.
     bindE (Number s2n (js_get patientData ''Hypertension'')) (\<lambda>n9.
     bindE (Number s2n (js_get patientData ''Physical_Activity_Hours_Week'')) (\<lambda>n10.
       Inr (JObject
         [(''Age'', JNumber n1),
          (''BMI'', JNumber n2),
          (''Waist_Circumference_cm'', JNumber n3),
          (''Fasting_Glucose_mg_dL'', JNumber n4),
          (''HbA1c_percent'', JNumber n5),
          (''Systolic_BP_mmHg'', JNumber n6),
          (''Diastolic_BP_mmHg'', JNumber n7),
          (''Family_History_Diabetes'', JNumber n8),
          (''Hypertension'', JNumber n9),
          (''Physical_Activity_Hours_Week'', JNumber n10)])))))))))))"

text \<open>
  The body of the \<^verbatim>\<open>try\<close> block. \<open>now\<close> is what \<^verbatim>\<open>new Date().toISOString()\<close>
  returns when the answer is built. The first statement that touches \<^verbatim>\<open>patientData\<close>
  reads \<^verbatim>\<open>patientData['Age']\<close>, which throws on \<^verbatim>\<open>undefined\<close> and \<^verbatim>\<open>null\<close>.
\<close>

definition validate_try :: "(string \<Rightarrow> jsnum) \<Rightarrow> string \<Rightarrow> jsval \<Rightarrow> js_error + middleware_result" where
  "validate_try s2n now patientData =
     (if is_nullish patientData then Inl (nullish_TypeError patientData ''Age'')
      else if length (missingFields patientData) > 0 then
        Inr (Responded \<lparr>status = 400, json_body = JObject
          [(''error'', JString ''Missing required fields''),
           (''missing_fields'', JArray (map JString (missingFields patientData))),
           (''timestamp'', JString now)]\<rparr>)
      else
        bindE (validationErrors s2n patientData) (\<lambda>errs.
          if length errs > 0 then
            Inr (Responded \<lparr>status = 400, json_body = JObject
              [(''error'', JString ''Invalid data ranges''),
               (''validation_errors'', JArray (map JString errs)),
               (''timestamp'', JString now)]\<rparr>)
          else
            bindE (normalized s2n patientData) (\<lambda>body. Inr (Next body))))"

definition validatePredictionInput :: "(string \<Rightarrow> jsnum) \<Rightarrow> string \<Rightarrow> jsval \<Rightarrow> middleware_result" where
  "validatePredictionInput s2n now patientData =
     (case validate_try s2n now patientData of
        Inr r \<Rightarrow> r
      | Inl error \<Rightarrow>
          Responded \<lparr>status = 500, json_body = JObject
            [(''error'', JString ''Validation processing failed''),
             (''message'', JString (message error)),
             (''timestamp'', JString now)]\<rparr>)"

section \<open>The prediction routes\<close>

text \<open>
  \<^verbatim>\<open>backend/routes/prediction.js\<close>. The inference endpoint is outside the program:
  \<^verbatim>\<open>sagemakerRuntime.invokeEndpoint(params).promise()\<close> either rejects with an error or
  resolves with a response whose body is a text. The model takes the endpoint as a function
  of the calls made so far in the request and of the parameters of this call, so its answer
  may depend on both. \<open>Body\<close> holds the value that \<^verbatim>\<open>JSON.stringify\<close> writes out. A
  response body is kept as what \<^verbatim>\<open>JSON.parse\<close> makes of it: the parsed value, or the
  message of the \<^verbatim>\<open>SyntaxError\<close>.
\<close>

record invoke_params =
  EndpointName :: jsval
  ContentType :: string
  Body :: jsval

datatype response_body = Malformed string | Json jsval

datatype endpoint_reply = Rejected js_error | Resolved response_body

type_synonym endpoint = "invoke_params list \<Rightarrow> invoke_params \<Rightarrow> endpoint_reply"

definition invokeEndpoint :: "endpoint \<Rightarrow> invoke_params list \<Rightarrow> invoke_params \<Rightarrow> js_error + response_body" where
  "invokeEndpoint endpoint calls params =
     (case endpoint calls params of Rejected error \<Rightarrow> Inl error | Resolved b \<Rightarrow> Inr b)"

definition JSON_parse :: "response_body \<Rightarrow> js_error + jsval" where
  "JSON_parse b = (case b of Malformed m \<Rightarrow> Inl \<lparr>code = None, message = m\<rparr> | Json v \<Rightarrow> Inr v)"

text \<open>What the process reads from its environment, and what the clock and the random
  generator return at each place the handler asks them.\<close>

record environment =
  endpointName :: jsval
  NODE_ENV :: "string option"

record clock =
  validationTimestamp :: string
  startTime :: int
  requestIdTime :: int
  requestIdRandom :: string
  sagemakerStartTime :: int
  sagemakerEndTime :: int
  endTime :: int
  timestamp :: string

definition requestId :: "clock \<Rightarrow> string" where
  "requestId c = ''req_'' @ show_int (requestIdTime c) @ ''_'' @ requestIdRandom c"

definition ms :: "int \<Rightarrow> jsval" where
  "ms d = JNumber (Fin (real_of_int d))"

text \<open>The own enumerable properties that \<^verbatim>\<open>{...result}\<close> copies.\<close>

fun own_properties :: "jsval \<Rightarrow> (string \<times> jsval) list" where
  "own_properties (JObject ps) = ps"
| "own_properties (JArray xs) = zip (map show_nat [0..<length xs]) xs"
| "own_properties (JString s) = zip (map show_nat [0..<length s]) (map (\<lambda>c. JString [c]) s)"
| "own_properties _ = []"

text \<open>The object literal \<^verbatim>\<open>enhancedResult\<close>: a later property of the literal replaces
  an earlier one of the same name where it stands, and is added at the end otherwise.\<close>

definition enhancedResult :: "environment \<Rightarrow> clock \<Rightarrow> jsval \<Rightarrow> (string \<times> jsval) list" where
  "enhancedResult env c result =
     AList.update ''backend_version'' (JString ''1.0.0'')
     (AList.update ''endpoint_used'' (endpointName env)
     (AList.update ''processed_at'' (JString (timestamp c))
     (AList.update ''sagemaker_response_time_ms'' (ms (sagemakerEndTime c - sagemakerStartTime c))
     (AList.update ''backend_processing_time_ms'' (ms (endTime c - startTime c))
     (AList.update ''request_id'' (JString (requestId c))
     (own_properties result))))))"

text \<open>The \<^verbatim>\<open>if\<close>/\<^verbatim>\<open>else if\<close> chain of the \<^verbatim>\<open>catch\<close> block: the status code and the
  error message.\<close>

definition classify :: "js_error \<Rightarrow> nat \<times> string" where
  "classify error =
     (if code error = Some ''ValidationException'' then (400, ''Invalid input data format'')
      else if code error = Some ''AccessDenied'' then (403, ''Access denied to SageMaker endpoint'')
      else if code error = Some ''ServiceUnavailable'' then (503, ''SageMaker service temporarily unavailable'')
      else if code error = Some ''ThrottlingException'' then (429, ''Too many requests - rate limit exceeded'')
      else if code error = Some ''ModelError'' then (502, ''Machine learning model error'')
      else (500, ''Internal server error''))"

definition predict_params :: "environment \<Rightarrow> jsval \<Rightarrow> invoke_params" where
  "predict_params env patientData =
     \<lparr>EndpointName = endpointName env, ContentType = ''application/json'', Body = patientData\<rparr>"

text \<open>The \<^verbatim>\<open>try\<close> block of the handler of \<^verbatim>\<open>POST /predict\<close>. After parsing, the handler
  reads \<^verbatim>\<open>result.risk_level\<close> for its log line, which throws when the body was the JSON
  text \<^verbatim>\<open>null\<close>.\<close>

definition predict_try :: "endpoint \<Rightarrow> environment \<Rightarrow> clock \<Rightarrow> jsval \<Rightarrow> js_error + http_response" where
  "predict_try endpoint env c patientData =
     bindE (invokeEndpoint endpoint [] (predict_params env patientData)) (\<lambda>response.
     bindE (JSON_parse response) (\<lambda>result.
       if is_nullish result then Inl (nullish_TypeError result ''risk_level'')
       else Inr \<lparr>status = 200, json_body = JObject (enhancedResult env c result)\<rparr>))"

definition error_response :: "environment \<Rightarrow> clock \<Rightarrow> js_error \<Rightarrow> http_response" where
  "error_response env c error =
     \<lparr>status = fst (classify error), json_body = JObject
        [(''error'', JString (snd (classify error))),
         (''request_id'', JString (requestId c)),
         (''details'', if NODE_ENV env = Some ''development'' then JString (message error) else JUndefined),
         (''timestamp'', JString (timestamp c)),
         (''processing_time_ms'', ms (endTime c - startTime c))]\<rparr>"

text \<open>The handler returns its answer and the calls it made to the endpoint.\<close>

definition predict_handler :: "endpoint \<Rightarrow> environment \<Rightarrow> clock \<Rightarrow> jsval \<Rightarrow> http_response \<times> invoke_params list" where
  "predict_handler endpoint env c patientData =
     (case predict_try endpoint env c patientData of
        Inr r \<Rightarrow> (r, [predict_params env patientData])
      | Inl error \<Rightarrow> (error_response env c error, [predict_params env patientData]))"

text \<open>\<^verbatim>\<open>router.post('/predict', validatePredictionInput, handler)\<close>: the handler runs only
  when the middleware called \<^verbatim>\<open>next()\<close>, on the body the middleware stored.\<close>

definition predict_route :: "(string \<Rightarrow> jsnum) \<Rightarrow> endpoint \<Rightarrow> environment \<Rightarrow> clock \<Rightarrow> jsval \<Rightarrow> http_response \<times> invoke_params list" where
  "predict_route s2n endpoint env c body =
     (case validatePredictionInput s2n (validationTimestamp c) body of
        Responded r \<Rightarrow> (r, [])
      | Next body' \<Rightarrow> predict_handler endpoint env c body')"

subsection \<open>The batch route\<close>

definition Array_isArray :: "jsval \<Rightarrow> bool" where
  "Array_isArray v = (case v of JArray xs \<Rightarrow> True | _ \<Rightarrow> False)"

definition elements :: "jsval \<Rightarrow> jsval list" where
  "elements v = (case v of JArray xs \<Rightarrow> xs | _ \<Rightarrow> [])"

text \<open>One turn of the \<^verbatim>\<open>for\<close> loop: the inner \<^verbatim>\<open>try\<close>/\<^verbatim>\<open>catch\<close> makes one entry of
  \<^verbatim>\<open>results\<close> whatever happens.\<close>

definition batch_outcome :: "nat \<Rightarrow> js_error + jsval \<Rightarrow> jsval" where
  "batch_outcome i r =
     (case r of
        Inr result \<Rightarrow>
          JObject [(''patient_index'', JNumber (Fin (real i))),
                   (''result'', result),
                   (''status'', JString ''success'')]
      | Inl error \<Rightarrow>
          JObject [(''patient_index'', JNumber (Fin (real i))),
                   (''error'', JString (message error)),
                   (''status'', JString ''failed'')])"

function batch_loop :: "endpoint \<Rightarrow> environment \<Rightarrow> jsval list \<Rightarrow> nat \<Rightarrow> jsval list \<Rightarrow> invoke_params list
    \<Rightarrow> jsval list \<times> invoke_params list" where
  "batch_loop endpoint env patients i results calls =
     (if i < length patients then
        (let params = \<lparr>EndpointName = endpointName env, ContentType = ''application/json'',
                       Body = patients ! i\<rparr>;
             outcome = batch_outcome i (bindE (invokeEndpoint endpoint calls params) JSON_parse)
         in batch_loop endpoint env patients (i + 1) (results @ [outcome]) (calls @ [params]))
      else (results, calls))"
  by pat_completeness auto
termination
  by (relation "measure (\<lambda>(endpoint, env, patients, i, results, calls). length patients - i)") auto

declare batch_loop.simps [simp del]

definition has_status :: "string \<Rightarrow> jsval \<Rightarrow> bool" where
  "has_status s r = (js_get r ''status'' = JString s)"

definition count :: "nat \<Rightarrow> jsval" where
  "count n = JNumber (Fin (real n))"

definition batch_try :: "endpoint \<Rightarrow> environment \<Rightarrow> string \<Rightarrow> jsval \<Rightarrow> js_error + http_response \<times> invoke_params list" where
  "batch_try endpoint env now body =
     (if is_nullish body then Inl (nullish_TypeError body ''patients'')
      else
        (let patients = js_get body ''patients''
         in if \<not> Array_isArray patients \<or> length (elements patients) = 0 then
              Inr (\<lparr>status = 400, json_body = JObject
                     [(''error'', JString ''Invalid batch data - expecting array of patients''),
                      (''timestamp'', JString now)]\<rparr>, [])
            else if length (elements patients) > 10 then
              Inr (\<lparr>status = 400, json_body = JObject
                     [(''error'', JString ''Batch size limited to 10 patients''),
                      (''timestamp'', JString now)]\<rparr>, [])
            else
              (case batch_loop endpoint env (elements patients) 0 [] [] of
                 (results, calls) \<Rightarrow>
                   Inr (\<lparr>status = 200, json_body = JObject
                          [(''batch_results'', JArray results),
                           (''total_patients'', count (length (elements patients))),
                           (''successful_predictions'', count (length (filter (has_status ''success'') results))),
                           (''failed_predictions'', count (length (filter (has_status ''failed'') results))),
                           (''processed_at'', JString now)]\<rparr>, calls))))"

definition predict_batch :: "endpoint \<Rightarrow> environment \<Rightarrow> string \<Rightarrow> jsval \<Rightarrow> http_response \<times> invoke_params list" where
  "predict_batch endpoint env now body =
     (case batch_try endpoint env now body of
        Inr r \<Rightarrow> r
      | Inl error \<Rightarrow>
          (\<lparr>status = 500, json_body = JObject
              [(''error'', JString ''Batch prediction failed''),
               (''message'', JString (message error)),
               (''timestamp'', JString now)]\<rparr>, []))"

section \<open>The validator's checks as a table\<close>

text \<open>
  The ten \<^verbatim>\<open>if\<close> statements of the validator, read as a table: the field, its check and
  the message pushed when the check fails. \<open>run_checks\<close> goes through a table the way the
  code goes through its statements; lemma \<open>validationErrors_table\<close> shows that the code is
  the run of this table.
\<close>

datatype check = Range real real | Binary

definition checks :: "(string \<times> check \<times> string) list" where
  "checks =
     [(''Age'', Range 18 120, ''Age must be a number between 18 and 120''),
      (''BMI'', Range 10 60, ''BMI must be a number between 10 and 60''),
      (''Waist_Circumference_cm'', Range 30 200, ''Waist circumference must be between 30 and 200 cm''),
      (''Fasting_Glucose_mg_dL'', Range 50 500, ''Fasting glucose must be between 50 and 500 mg/dL''),
      (''HbA1c_percent'', Range 3 20, ''HbA1c must be between 3 and 20%''),
      (''Systolic_BP_mmHg'', Range 70 300, ''Systolic BP must be between 70 and 300 mmHg''),
      (''Diastolic_BP_mmHg'', Range 40 200, ''Diastolic BP must be between 40 and 200 mmHg''),
      (''Family_History_Diabetes'', Binary, ''Family_History_Diabetes must be 0 or 1''),
      (''Hypertension'', Binary, ''Hypertension must be 0 or 1''),
      (''Physical_Activity_Hours_Week'', Range 0 50, ''Physical activity must be between 0 and 50 hours per week'')]"

definition run_check :: "(string \<Rightarrow> jsnum) \<Rightarrow> check \<Rightarrow> jsval \<Rightarrow> js_error + bool" where
  "run_check s2n chk v =
     (case chk of Range lo hi \<Rightarrow> out_of_range s2n v lo hi | Binary \<Rightarrow> not_binary s2n v)"

fun run_checks :: "(string \<Rightarrow> jsnum) \<Rightarrow> jsval \<Rightarrow> (string \<times> check \<times> string) list \<Rightarrow> string list \<Rightarrow> js_error + string list" where
  "run_checks s2n d [] errs = Inr errs"
| "run_checks s2n d ((f, chk, msg) # rest) errs =
     bindE (push_if (run_check s2n chk (js_get d f)) msg errs) (\<lambda>errs. run_checks s2n d rest errs)"

text \<open>The number a value is converted to; not-a-number stands for a conversion that
  throws, so that such a value counts as outside every range.\<close>

definition numeric :: "(string \<Rightarrow> jsnum) \<Rightarrow> jsval \<Rightarrow> jsnum" where
  "numeric s2n v = (case ToNumber s2n v of Inr n \<Rightarrow> n | Inl e \<Rightarrow> NaN)"

text \<open>The declared range of a field, in the specification's words: a number of the closed
  interval, or one of 0 and 1 for a flag.\<close>

fun spec_in_range :: "check \<Rightarrow> jsnum \<Rightarrow> bool" where
  "spec_in_range (Range lo hi) (Fin x) = (lo \<le> x \<and> x \<le> hi)"
| "spec_in_range (Range lo hi) _ = False"
| "spec_in_range Binary n = (n = Fin 0 \<or> n = Fin 1)"

definition any_throws :: "jsval \<Rightarrow> string list \<Rightarrow> bool" where
  "any_throws d fs = list_ex (\<lambda>f. ToString_throws (js_get d f)) fs"

definition failed_checks :: "(string \<Rightarrow> jsnum) \<Rightarrow> jsval \<Rightarrow> (string \<times> check \<times> string) list \<Rightarrow> string list" where
  "failed_checks s2n d tbl =
     map (\<lambda>(f, chk, msg). msg)
       (filter (\<lambda>(f, chk, msg). \<not> spec_in_range chk (numeric s2n (js_get d f))) tbl)"

text \<open>The record of the specification's scenario, which is also the test record of the
  endpoint health check in \<^verbatim>\<open>routes/prediction.js\<close>.\<close>

definition testData :: "(string \<times> jsval) list" where
  "testData =
     [(''Age'', JNumber (Fin 45)),
      (''BMI'', JNumber (Fin 25)),
      (''Waist_Circumference_cm'', JNumber (Fin 85)),
      (''Fasting_Glucose_mg_dL'', JNumber (Fin 95)),
      (''HbA1c_percent'', JNumber (Fin (11 / 2))),
      (''Systolic_BP_mmHg'', JNumber (Fin 120)),
      (''Diastolic_BP_mmHg'', JNumber (Fin 80)),
      (''Family_History_Diabetes'', JNumber (Fin 0)),
      (''Hypertension'', JNumber (Fin 0)),
      (''Physical_Activity_Hours_Week'', JNumber (Fin 5))]"

text \<open>The same record with one field given another value.\<close>

definition testData_with :: "string \<Rightarrow> jsval \<Rightarrow> jsval" where
  "testData_with f v = JObject (AList.update f v testData)"

text \<open>A record with every field present, an age of 15 and a body-mass index that is an
  object with a property named \<^verbatim>\<open>toString\<close>.\<close>

definition unconvertible_record :: jsval where
  "unconvertible_record =
     JObject (AList.update ''BMI'' (JObject [(''toString'', JNumber (Fin 1))])
               (AList.update ''Age'' (JNumber (Fin 15)) testData))"

section \<open>Notions used in the statements on the routes\<close>

text \<open>The parameters of the call for one batch item, the calls of a whole batch, and what
  the \<open>i\<close>-th turn of the loop gets from the endpoint and the parser: the endpoint is asked
  with the calls of the items before \<open>i\<close> behind it.\<close>

definition batch_params :: "environment \<Rightarrow> jsval \<Rightarrow> invoke_params" where
  "batch_params env p =
     \<lparr>EndpointName = endpointName env, ContentType = ''application/json'', Body = p\<rparr>"

definition batch_calls :: "environment \<Rightarrow> jsval list \<Rightarrow> invoke_params list" where
  "batch_calls env ps = map (batch_params env) ps"

definition batch_reply :: "endpoint \<Rightarrow> environment \<Rightarrow> jsval list \<Rightarrow> nat \<Rightarrow> js_error + jsval" where
  "batch_reply endpoint env ps i =
     bindE (invokeEndpoint endpoint (batch_calls env (take i ps)) (batch_params env (ps ! i)))
       JSON_parse"

definition batch_results :: "endpoint \<Rightarrow> environment \<Rightarrow> jsval list \<Rightarrow> jsval list" where
  "batch_results endpoint env ps =
     map (\<lambda>i. batch_outcome i (batch_reply endpoint env ps i)) [0..<length ps]"

text \<open>The keys that \<^verbatim>\<open>enhancedResult\<close> sets after the spread.\<close>

definition metadata_keys :: "string list" where
  "metadata_keys =
     [''request_id'', ''backend_processing_time_ms'', ''sagemaker_response_time_ms'',
      ''processed_at'', ''endpoint_used'', ''backend_version'']"

text \<open>The error kinds of the specification, and its table of kinds and status analogues
  read from the status to the kind. The kind \<open>malformed_response\<close> of the specification's
  inference client has no status of its own in that table.\<close>

datatype spec_error_kind =
    invalid_input | access_denied | service_unavailable | rate_limited | model_error
  | internal | malformed_response

definition spec_kind_of_status :: "nat \<Rightarrow> spec_error_kind option" where
  "spec_kind_of_status s =
     (if s = 400 then Some invalid_input
      else if s = 403 then Some access_denied
      else if s = 503 then Some service_unavailable
      else if s = 429 then Some rate_limited
      else if s = 502 then Some model_error
      else if s = 500 then Some internal
      else None)"

text \<open>A clock and an environment for the concrete runs.\<close>

definition clock0 :: clock where
  "clock0 =
     \<lparr>validationTimestamp = ''2026-11-01T10:00:00.000Z'', startTime = 1700000000001,
      requestIdTime = 1700000000001, requestIdRandom = ''k3j9x2m1q'',
      sagemakerStartTime = 1700000000002, sagemakerEndTime = 1700000000040,
      endTime = 1700000000041, timestamp = ''2026-11-01T10:00:00.041Z''\<rparr>"

definition env_development :: environment where
  "env_development = \<lparr>endpointName = JString ''diabetes-endpoint'', NODE_ENV = Some ''development''\<rparr>"

definition env_test :: environment where
  "env_test = \<lparr>endpointName = JString ''diabetes-endpoint'', NODE_ENV = Some ''test''\<rparr>"

text \<open>An endpoint answer for the concrete runs, and an endpoint that rejects the second
  call of a request and answers every other call.\<close>

definition low_risk :: jsval where
  "low_risk = JObject [(''risk_level'', JString ''Low Risk''), (''probability'', JNumber (Fin (3 / 25)))]"

definition fails_second :: endpoint where
  "fails_second calls params =
     (if length calls = 1 then Rejected \<lparr>code = Some ''ModelError'', message = ''model container crashed''\<rparr>
      else Resolved (Json low_risk))"

text \<open>An endpoint that rejects every call, and one whose answer is not JSON.\<close>

definition rejects :: endpoint where
  "rejects calls params = Rejected \<lparr>code = Some ''ModelError'', message = ''model container crashed''\<rparr>"

definition garbled :: endpoint where
  "garbled calls params = Resolved (Malformed ''Unexpected token < in JSON at position 0'')"

section \<open>Lemmas on the conversions and the validator\<close>

lemma bindE_Inr: "bindE m Inr = m"
  by (cases m) (simp_all add: bindE_def)

lemma run_checks_Nil_fun: "run_checks s2n d [] = Inr"
  by (rule ext) simp

lemma run_checks_Cons_fun:
  "run_checks s2n d ((f, chk, msg) # rest) =
     (\<lambda>errs. bindE (push_if (run_check s2n chk (js_get d f)) msg errs) (run_checks s2n d rest))"
  by (rule ext) simp

lemma validationErrors_table: "validationErrors s2n d = run_checks s2n d checks []"
  by (simp only: validationErrors_def checks_def run_checks_Cons_fun run_checks_Nil_fun
        run_check_def check.case bindE_Inr)

lemma ToNumber_Inl: "ToString_throws v \<Longrightarrow> ToNumber s2n v = Inl primitive_TypeError"
  by (induction s2n v rule: ToNumber.induct) simp_all

lemma ToNumber_Inr: "\<not> ToString_throws v \<Longrightarrow> \<exists>n. ToNumber s2n v = Inr n"
  by (induction s2n v rule: ToNumber.induct) simp_all

lemma ToNumber_throws:
  "ToNumber s2n v = (if ToString_throws v then Inl primitive_TypeError else Inr (numeric s2n v))"
proof (cases "ToString_throws v")
  case True
  then show ?thesis by (simp add: ToNumber_Inl)
next
  case False
  then obtain n where "ToNumber s2n v = Inr n" using ToNumber_Inr by blast
  with False show ?thesis by (simp add: numeric_def)
qed

text \<open>The condition of each \<^verbatim>\<open>if\<close> is the negation of "the value is in the declared
  range", unless the conversion throws.\<close>

lemma run_check_eq:
  "run_check s2n chk v =
     (if ToString_throws v then Inl primitive_TypeError
      else Inr (\<not> spec_in_range chk (numeric s2n v)))"
proof (cases chk)
  case (Range lo hi)
  show ?thesis
    by (cases "numeric s2n v")
       (auto simp: Range run_check_def out_of_range_def isNaN_def js_lt_def js_gt_def
          bindE_def ToNumber_throws)
next
  case Binary
  then show ?thesis
    by (simp add: run_check_def not_binary_def Number_def bindE_def ToNumber_throws
          includes01_def)
qed

lemma run_checks_eq:
  "run_checks s2n d tbl errs =
     (if any_throws d (map fst tbl) then Inl primitive_TypeError
      else Inr (errs @ failed_checks s2n d tbl))"
proof (induction tbl arbitrary: errs)
  case Nil
  show ?case by (simp add: any_throws_def failed_checks_def)
next
  case (Cons a tbl)
  obtain f chk msg where a: "a = (f, chk, msg)" by (cases a)
  show ?case
    by (simp add: a Cons.IH run_check_eq push_if_def bindE_def any_throws_def failed_checks_def)
qed

lemma map_fst_checks: "map fst checks = requiredFields"
  by (simp add: checks_def requiredFields_def)

lemma validationErrors_eq:
  "validationErrors s2n d =
     (if any_throws d requiredFields then Inl primitive_TypeError
      else Inr (failed_checks s2n d checks))"
  by (simp add: validationErrors_table run_checks_eq map_fst_checks)

lemma normalized_eq:
  "normalized s2n d =
     (if any_throws d requiredFields then Inl primitive_TypeError
      else Inr (JObject (map (\<lambda>f. (f, JNumber (numeric s2n (js_get d f)))) requiredFields)))"
  by (simp add: normalized_def Number_def ToNumber_throws bindE_def any_throws_def
        requiredFields_def)

text \<open>The five ways the middleware can end.\<close>

lemma validate_cases:
  "validatePredictionInput s2n now d =
     (if is_nullish d then
        Responded \<lparr>status = 500, json_body = JObject
          [(''error'', JString ''Validation processing failed''),
           (''message'', JString (message (nullish_TypeError d ''Age''))),
           (''timestamp'', JString now)]\<rparr>
      else if missingFields d \<noteq> [] then
        Responded \<lparr>status = 400, json_body = JObject
          [(''error'', JString ''Missing required fields''),
           (''missing_fields'', JArray (map JString (missingFields d))),
           (''timestamp'', JString now)]\<rparr>
      else if any_throws d requiredFields then
        Responded \<lparr>status = 500, json_body = JObject
          [(''error'', JString ''Validation processing failed''),
           (''message'', JString (message primitive_TypeError)),
           (''timestamp'', JString now)]\<rparr>
      else if failed_checks s2n d checks \<noteq> [] then
        Responded \<lparr>status = 400, json_body = JObject
          [(''error'', JString ''Invalid data ranges''),
           (''validation_errors'', JArray (map JString (failed_checks s2n d checks))),
           (''timestamp'', JString now)]\<rparr>
      else Next (JObject (map (\<lambda>f. (f, JNumber (numeric s2n (js_get d f)))) requiredFields)))"
  by (simp add: validatePredictionInput_def validate_try_def validationErrors_eq normalized_eq
        bindE_def)

lemma js_get_map_fields:
  "f \<in> set fs \<Longrightarrow> js_get (JObject (map (\<lambda>f. (f, g f)) fs)) f = g f"
  by (simp add: map_of_map_restrict)

lemma failed_checks_Nil_iff:
  "failed_checks s2n d tbl = [] \<longleftrightarrow>
     (\<forall>(f, chk, msg) \<in> set tbl. spec_in_range chk (numeric s2n (js_get d f)))"
  by (auto simp: failed_checks_def filter_empty_conv)

lemma failed_checks_mem:
  "(f, chk, msg) \<in> set tbl \<Longrightarrow> \<not> spec_in_range chk (numeric s2n (js_get d f)) \<Longrightarrow>
     msg \<in> set (failed_checks s2n d tbl)"
  by (force simp: failed_checks_def)

lemma any_throws_iff:
  "any_throws d fs \<longleftrightarrow> (\<exists>f \<in> set fs. ToString_throws (js_get d f))"
  by (simp add: any_throws_def list_ex_iff)

lemma binary_checks:
  "(f, Binary, msg) \<in> set checks \<longleftrightarrow>
     (f = ''Family_History_Diabetes'' \<and> msg = ''Family_History_Diabetes must be 0 or 1'') \<or>
     (f = ''Hypertension'' \<and> msg = ''Hypertension must be 0 or 1'')"
  by (auto simp: checks_def)

lemma distinct_messages: "distinct (map (\<lambda>(f, chk, msg). msg) checks)"
  by (simp add: checks_def)

lemma checks_message_unique:
  assumes "(f, chk, msg) \<in> set tbl" "(f', chk', msg) \<in> set tbl"
    and "distinct (map (\<lambda>(f, chk, msg). msg) tbl)"
  shows "f' = f \<and> chk' = chk"
  using assms
proof (induction tbl)
  case Nil
  then show ?case by simp
next
  case (Cons a tbl)
  then show ?case by (cases a) force
qed


lemma failed_checks_mem_iff:
  assumes "(f, chk, msg) \<in> set checks"
  shows "msg \<in> set (failed_checks s2n d checks) \<longleftrightarrow> \<not> spec_in_range chk (numeric s2n (js_get d f))"
proof
  assume "msg \<in> set (failed_checks s2n d checks)"
  then obtain f' chk' where m: "(f', chk', msg) \<in> set checks"
    and o: "\<not> spec_in_range chk' (numeric s2n (js_get d f'))"
    by (auto simp: failed_checks_def)
  from assms m distinct_messages have "f' = f \<and> chk' = chk"
    by (rule checks_message_unique)
  with o show "\<not> spec_in_range chk (numeric s2n (js_get d f))" by simp
next
  assume "\<not> spec_in_range chk (numeric s2n (js_get d f))"
  with assms show "msg \<in> set (failed_checks s2n d checks)" by (rule failed_checks_mem)
qed

lemma Number_numeric: "Number s2n v = Inr n \<Longrightarrow> numeric s2n v = n \<and> \<not> ToString_throws v"
  by (simp add: Number_def ToNumber_throws split: if_splits)

lemma testData_with_flag_missing:
  assumes "f = ''Family_History_Diabetes'' \<or> f = ''Hypertension''" and "\<not> is_missing v"
  shows "missingFields (testData_with f v) = []"
  using assms
  by (elim disjE)
     (simp_all add: missingFields_def requiredFields_def testData_with_def testData_def
        is_missing_def)

lemma testData_with_flag_throws:
  assumes "f = ''Family_History_Diabetes'' \<or> f = ''Hypertension''" and "\<not> ToString_throws v"
  shows "\<not> any_throws (testData_with f v) requiredFields"
  using assms
  by (elim disjE)
     (simp_all add: any_throws_def requiredFields_def testData_with_def testData_def)

lemma testData_with_flag_normalized:
  assumes "f = ''Family_History_Diabetes'' \<or> f = ''Hypertension''"
  shows "JObject (map (\<lambda>g. (g, JNumber (numeric s2n (js_get (testData_with f v) g)))) requiredFields) =
      testData_with f (JNumber (numeric s2n v))"
  using assms
  by (elim disjE)
     (simp_all add: requiredFields_def testData_with_def testData_def numeric_def)

lemma testData_with_flag_failed:
  assumes "(f, Binary, msg) \<in> set checks"
  shows "failed_checks s2n (testData_with f v) checks =
     (if spec_in_range Binary (numeric s2n v) then [] else [msg])"
  using assms unfolding binary_checks
  by (elim disjE conjE)
     (simp_all add: failed_checks_def checks_def testData_with_def testData_def numeric_def)

lemma validate_testData_with_flag:
  assumes f: "(f, Binary, msg) \<in> set checks"
    and v: "\<not> is_missing v"
    and n: "Number s2n v = Inr n"
  shows "validatePredictionInput s2n now (testData_with f v) =
     (if n = Fin 0 \<or> n = Fin 1 then Next (testData_with f (JNumber n))
      else Responded \<lparr>status = 400, json_body = JObject
             [(''error'', JString ''Invalid data ranges''),
              (''validation_errors'', JArray [JString msg]),
              (''timestamp'', JString now)]\<rparr>)"
proof -
  let ?d = "testData_with f v"
  from n have num: "numeric s2n v = n" and conv: "\<not> ToString_throws v"
    by (simp_all add: Number_numeric)
  from f have ff: "f = ''Family_History_Diabetes'' \<or> f = ''Hypertension''"
    by (auto simp: binary_checks)
  have u: "\<not> is_nullish ?d"
    by (simp add: is_nullish_def testData_with_def)
  have m: "missingFields ?d = []"
    using ff v by (rule testData_with_flag_missing)
  have t: "\<not> any_throws ?d requiredFields"
    using ff conv by (rule testData_with_flag_throws)
  have fc: "failed_checks s2n ?d checks = (if n = Fin 0 \<or> n = Fin 1 then [] else [msg])"
    using testData_with_flag_failed [OF f, of s2n v] by (simp add: num)
  have b: "JObject (map (\<lambda>g. (g, JNumber (numeric s2n (js_get ?d g)))) requiredFields) =
      testData_with f (JNumber n)"
    using testData_with_flag_normalized [OF ff, of s2n v] by (simp only: num)
  show ?thesis
  proof (cases "n = Fin 0 \<or> n = Fin 1")
    case True
    then have "failed_checks s2n ?d checks = []" by (simp only: fc if_True)
    then show ?thesis
      by (simp only: validate_cases u m t b True if_False if_True simp_thms)
  next
    case False
    then have "failed_checks s2n ?d checks = [msg]" by (simp only: fc if_False)
    then show ?thesis
      by (simp only: validate_cases u m t False if_False if_True simp_thms list.simps)
  qed
qed

lemma Number_examples:
  "Number s2n (JBool False) = Inr (Fin 0)"
  "Number s2n (JBool True) = Inr (Fin 1)"
  "Number StringToNumber (JString ''0'') = Inr (Fin 0)"
  "Number StringToNumber (JString ''1'') = Inr (Fin 1)"
  "Number s2n (JNumber (Fin (1 / 2))) = Inr (Fin (1 / 2))"
  "Number s2n (JNumber (Fin 2)) = Inr (Fin 2)"
  "Number StringToNumber (JString ''yes'') = Inr NaN"
  by (simp_all add: Number_def StringToNumber_def trim_def isStrWhiteSpaceChar_def
       NonDecimalIntegerLiteral_def StrUnsignedDecimalLiteral_def Mantissa_def Digits_def
       digit_value_def ExponentPart_def scale10_def)

subsection \<open>The batch loop\<close>

lemma batch_loop_eq:
  "i \<le> length ps \<Longrightarrow> calls = batch_calls env (take i ps) \<Longrightarrow>
     batch_loop endpoint env ps i results calls =
       (results @ map (\<lambda>j. batch_outcome j (batch_reply endpoint env ps j)) [i..<length ps],
        batch_calls env ps)"
proof (induction endpoint env ps i results calls rule: batch_loop.induct)
  case (1 endpoint env patients i results calls)
  show ?case
  proof (cases "i < length patients")
    case True
    let ?params = "\<lparr>EndpointName = endpointName env, ContentType = ''application/json'',
        Body = patients ! i\<rparr>"
    let ?outcome = "batch_outcome i (bindE (invokeEndpoint endpoint calls ?params) JSON_parse)"
    have c: "calls @ [?params] = batch_calls env (take (i + 1) patients)"
      using True "1.prems"(2) by (simp add: batch_calls_def batch_params_def take_Suc_conv_app_nth)
    have o: "?outcome = batch_outcome i (batch_reply endpoint env patients i)"
      using "1.prems"(2) by (simp add: batch_reply_def batch_params_def)
    have "batch_loop endpoint env patients i results calls =
        batch_loop endpoint env patients (i + 1) (results @ [?outcome]) (calls @ [?params])"
      using True by (subst batch_loop.simps) (simp add: Let_def)
    also have "\<dots> = ((results @ [?outcome]) @
          map (\<lambda>j. batch_outcome j (batch_reply endpoint env patients j)) [i + 1..<length patients],
        batch_calls env patients)"
      using True c by (intro "1.IH" [OF True refl refl]) simp_all
    also have "(results @ [?outcome]) @
          map (\<lambda>j. batch_outcome j (batch_reply endpoint env patients j)) [i + 1..<length patients] =
        results @ map (\<lambda>j. batch_outcome j (batch_reply endpoint env patients j)) [i..<length patients]"
      using True by (simp add: o upt_conv_Cons)
    finally show ?thesis .
  next
    case False
    with "1.prems" have "i = length patients" by simp
    then show ?thesis
      using "1.prems"(2) by (subst batch_loop.simps) simp
  qed
qed

lemma batch_loop_results:
  "batch_loop endpoint env ps 0 [] [] = (batch_results endpoint env ps, batch_calls env ps)"
  using batch_loop_eq [of 0 ps "[]" env endpoint "[]"]
  by (simp add: batch_results_def batch_calls_def)

lemma has_status_outcome:
  "has_status ''success'' (batch_outcome i r) = (\<not> isl r)"
  "has_status ''failed'' (batch_outcome i r) = isl r"
  by (cases r; simp add: has_status_def batch_outcome_def)+

lemma predict_batch_cases:
  "\<not> is_nullish body \<Longrightarrow>
   predict_batch endpoint env now body =
     (if \<not> Array_isArray (js_get body ''patients'') \<or> elements (js_get body ''patients'') = [] then
        (\<lparr>status = 400, json_body = JObject
            [(''error'', JString ''Invalid batch data - expecting array of patients''),
             (''timestamp'', JString now)]\<rparr>, [])
      else if length (elements (js_get body ''patients'')) > 10 then
        (\<lparr>status = 400, json_body = JObject
            [(''error'', JString ''Batch size limited to 10 patients''),
             (''timestamp'', JString now)]\<rparr>, [])
      else
        (\<lparr>status = 200, json_body = JObject
            [(''batch_results'', JArray (batch_results endpoint env (elements (js_get body ''patients'')))),
             (''total_patients'', count (length (elements (js_get body ''patients'')))),
             (''successful_predictions'', count (length (filter (has_status ''success'')
                 (batch_results endpoint env (elements (js_get body ''patients'')))))),
             (''failed_predictions'', count (length (filter (has_status ''failed'')
                 (batch_results endpoint env (elements (js_get body ''patients'')))))),
             (''processed_at'', JString now)]\<rparr>,
         batch_calls env (elements (js_get body ''patients''))))"
  by (simp add: predict_batch_def batch_try_def Let_def batch_loop_results)

lemma js_get_nullish: "is_nullish body \<Longrightarrow> js_get body k = JUndefined"
  by (auto simp: is_nullish_def)

lemma batch_results_nth:
  "i < length ps \<Longrightarrow>
     batch_results endpoint env ps ! i = batch_outcome i (batch_reply endpoint env ps i)"
  by (simp add: batch_results_def)

lemma batch_results_counts:
  "length (filter (has_status ''success'') (batch_results endpoint env ps)) +
   length (filter (has_status ''failed'') (batch_results endpoint env ps)) = length ps"
proof -
  have "length (filter (\<lambda>r. \<not> isl r) rs) + length (filter isl rs) = length rs"
    for rs :: "(js_error + jsval) list"
    by (induction rs) simp_all
  from this [of "map (batch_reply endpoint env ps) [0..<length ps]"]
  show ?thesis
    by (simp add: batch_results_def filter_map comp_def has_status_outcome)
qed

subsection \<open>The handler of a single prediction\<close>

lemma predict_try_cases:
  "predict_try endpoint env c d =
     (case endpoint [] (predict_params env d) of
        Rejected error \<Rightarrow> Inl error
      | Resolved (Malformed m) \<Rightarrow> Inl \<lparr>code = None, message = m\<rparr>
      | Resolved (Json result) \<Rightarrow>
          if is_nullish result then Inl (nullish_TypeError result ''risk_level'')
          else Inr \<lparr>status = 200, json_body = JObject (enhancedResult env c result)\<rparr>)"
  by (simp add: predict_try_def invokeEndpoint_def JSON_parse_def bindE_def
        split: endpoint_reply.splits response_body.splits)

lemma map_of_enhancedResult:
  "map_of (enhancedResult env c result) =
     (map_of (own_properties result))
       (''request_id'' \<mapsto> JString (requestId c),
        ''backend_processing_time_ms'' \<mapsto> ms (endTime c - startTime c),
        ''sagemaker_response_time_ms'' \<mapsto> ms (sagemakerEndTime c - sagemakerStartTime c),
        ''processed_at'' \<mapsto> JString (timestamp c),
        ''endpoint_used'' \<mapsto> endpointName env,
        ''backend_version'' \<mapsto> JString ''1.0.0'')"
  by (simp add: enhancedResult_def update_conv')

lemma keys_enhancedResult:
  "fst ` set (enhancedResult env c result) =
     fst ` set (own_properties result) \<union> set metadata_keys"
  by (auto simp: enhancedResult_def dom_update metadata_keys_def)

lemma js_get_enhancedResult:
  "k \<notin> set metadata_keys \<Longrightarrow>
     js_get (JObject (enhancedResult env c result)) k = js_get (JObject (own_properties result)) k"
  by (simp add: map_of_enhancedResult metadata_keys_def)

lemma js_get_enhancedResult_metadata:
  "js_get (JObject (enhancedResult env c result)) ''request_id'' = JString (requestId c)"
  "js_get (JObject (enhancedResult env c result)) ''backend_processing_time_ms'' =
     ms (endTime c - startTime c)"
  "js_get (JObject (enhancedResult env c result)) ''sagemaker_response_time_ms'' =
     ms (sagemakerEndTime c - sagemakerStartTime c)"
  "js_get (JObject (enhancedResult env c result)) ''processed_at'' = JString (timestamp c)"
  "js_get (JObject (enhancedResult env c result)) ''endpoint_used'' = endpointName env"
  "js_get (JObject (enhancedResult env c result)) ''backend_version'' = JString ''1.0.0''"
  by (simp_all add: map_of_enhancedResult)

lemma requestId_clock0: "requestId clock0 = ''req_1700000000001_k3j9x2m1q''"
  by (simp add: requestId_def clock0_def show_int_def show_nat.simps digit_char_def)

section \<open>The claims\<close>

text \<open>
  C5. An input that lacks a required field (the property is absent, \<^verbatim>\<open>null\<close> or the
  empty string) is answered with status 400 and exactly the list of the missing field names,
  in the order of \<^verbatim>\<open>requiredFields\<close>, and with no range errors; and no answer of the
  validator carries both lists: one that has \<^verbatim>\<open>validation_errors\<close> comes from an input
  with no field missing and has no \<^verbatim>\<open>missing_fields\<close>.
\<close>

theorem missing_fields_short_circuit:
  "(\<not> is_nullish d \<and> missingFields d \<noteq> [] \<longrightarrow>
      missingFields d =
        filter (\<lambda>f. js_get d f = JUndefined \<or> js_get d f = JNull \<or> js_get d f = JString [])
          requiredFields \<and>
      validatePredictionInput s2n now d =
        Responded \<lparr>status = 400, json_body = JObject
          [(''error'', JString ''Missing required fields''),
           (''missing_fields'', JArray (map JString (missingFields d))),
           (''timestamp'', JString now)]\<rparr>) \<and>
   (\<forall>r. validatePredictionInput s2n now d = Responded r \<longrightarrow>
      js_get (json_body r) ''validation_errors'' \<noteq> JUndefined \<longrightarrow>
      missingFields d = [] \<and> js_get (json_body r) ''missing_fields'' = JUndefined)"
proof (intro conjI impI allI)
  show "missingFields d =
      filter (\<lambda>f. js_get d f = JUndefined \<or> js_get d f = JNull \<or> js_get d f = JString [])
        requiredFields"
    by (simp add: missingFields_def is_missing_def)
next
  assume "\<not> is_nullish d \<and> missingFields d \<noteq> []"
  then show "validatePredictionInput s2n now d =
      Responded \<lparr>status = 400, json_body = JObject
        [(''error'', JString ''Missing required fields''),
         (''missing_fields'', JArray (map JString (missingFields d))),
         (''timestamp'', JString now)]\<rparr>"
    by (simp add: validate_cases)
next
  fix r
  assume r: "validatePredictionInput s2n now d = Responded r"
    and v: "js_get (json_body r) ''validation_errors'' \<noteq> JUndefined"
  from r v show "missingFields d = []"
    by (auto simp: validate_cases split: if_splits)
  from r v show "js_get (json_body r) ''missing_fields'' = JUndefined"
    by (auto simp: validate_cases split: if_splits)
qed

theorem missing_fields_short_circuit_witness:
  "\<not> is_nullish (JObject (AList.update ''BMI'' (JNumber (Fin 5)) (tl testData))) \<and>
   missingFields (JObject (AList.update ''BMI'' (JNumber (Fin 5)) (tl testData))) = [''Age''] \<and>
   validatePredictionInput StringToNumber ''2026-11-01T10:00:00.000Z''
       (JObject (AList.update ''BMI'' (JNumber (Fin 5)) (tl testData))) =
     Responded \<lparr>status = 400, json_body = JObject
       [(''error'', JString ''Missing required fields''),
        (''missing_fields'', JArray [JString ''Age'']),
        (''timestamp'', JString ''2026-11-01T10:00:00.000Z'')]\<rparr>"
proof -
  have m: "missingFields (JObject (AList.update ''BMI'' (JNumber (Fin 5)) (tl testData))) = [''Age'']"
    by (simp add: missingFields_def requiredFields_def testData_def is_missing_def)
  have n: "\<not> is_nullish (JObject (AList.update ''BMI'' (JNumber (Fin 5)) (tl testData)))"
    by (simp add: is_nullish_def)
  show ?thesis
    using missing_fields_short_circuit
      [of "JObject (AList.update ''BMI'' (JNumber (Fin 5)) (tl testData))"
          StringToNumber "''2026-11-01T10:00:00.000Z''"] m n
    by simp
qed

text \<open>
  C1, as the code has it. When every required field is present and the value of one of
  them is not a number of its declared range (it converts to a number outside the range
  or to not-a-number, or cannot be converted), the validator never passes the input on and
  the route calls the endpoint zero times. The answer is status 400 with
  \<^verbatim>\<open>validation_errors\<close> holding the message of every field that is out of range, the
  message of this field among them, provided every field value can be converted to a
  number. When some field value cannot (an object with a property of its own named
  \<^verbatim>\<open>toString\<close>), the conversion throws and the \<^verbatim>\<open>catch\<close> block of the validator
  answers with status 500 instead.
\<close>

theorem out_of_range_never_passes:
  assumes "\<not> is_nullish d"
    and "missingFields d = []"
    and "(f, chk, msg) \<in> set checks"
    and "\<not> spec_in_range chk (numeric s2n (js_get d f))"
  shows "(\<forall>b. validatePredictionInput s2n (validationTimestamp c) d \<noteq> Next b) \<and>
    snd (predict_route s2n endpoint env c d) = [] \<and>
    (\<not> any_throws d requiredFields \<longrightarrow>
       msg \<in> set (failed_checks s2n d checks) \<and>
       validatePredictionInput s2n (validationTimestamp c) d =
         Responded \<lparr>status = 400, json_body = JObject
           [(''error'', JString ''Invalid data ranges''),
            (''validation_errors'', JArray (map JString (failed_checks s2n d checks))),
            (''timestamp'', JString (validationTimestamp c))]\<rparr>) \<and>
    (any_throws d requiredFields \<longrightarrow>
       validatePredictionInput s2n (validationTimestamp c) d =
         Responded \<lparr>status = 500, json_body = JObject
           [(''error'', JString ''Validation processing failed''),
            (''message'', JString ''Cannot convert object to primitive value''),
            (''timestamp'', JString (validationTimestamp c))]\<rparr>)"
proof -
  have mem: "msg \<in> set (failed_checks s2n d checks)"
    using assms(3,4) by (rule failed_checks_mem)
  then have ne: "failed_checks s2n d checks \<noteq> []" by auto
  have never: "validatePredictionInput s2n (validationTimestamp c) d \<noteq> Next b" for b
    using assms(1,2) ne by (simp add: validate_cases)
  then obtain r where r: "validatePredictionInput s2n (validationTimestamp c) d = Responded r"
    by (cases "validatePredictionInput s2n (validationTimestamp c) d") auto
  have calls: "snd (predict_route s2n endpoint env c d) = []"
    by (simp add: predict_route_def r)
  have range: "validatePredictionInput s2n (validationTimestamp c) d =
      Responded \<lparr>status = 400, json_body = JObject
        [(''error'', JString ''Invalid data ranges''),
         (''validation_errors'', JArray (map JString (failed_checks s2n d checks))),
         (''timestamp'', JString (validationTimestamp c))]\<rparr>"
    if "\<not> any_throws d requiredFields"
    using assms(1,2) ne that by (simp add: validate_cases)
  have thrown: "validatePredictionInput s2n (validationTimestamp c) d =
      Responded \<lparr>status = 500, json_body = JObject
        [(''error'', JString ''Validation processing failed''),
         (''message'', JString ''Cannot convert object to primitive value''),
         (''timestamp'', JString (validationTimestamp c))]\<rparr>"
    if "any_throws d requiredFields"
    using assms(1,2) that by (simp add: validate_cases primitive_TypeError_def)
  from never calls mem range thrown show ?thesis by blast
qed

theorem out_of_range_never_passes_witness:
  "\<not> is_nullish (testData_with ''Age'' (JNumber (Fin 15))) \<and>
   missingFields (testData_with ''Age'' (JNumber (Fin 15))) = [] \<and>
   \<not> any_throws (testData_with ''Age'' (JNumber (Fin 15))) requiredFields \<and>
   snd (predict_route StringToNumber (\<lambda>calls params. Resolved (Json JNull))
          \<lparr>endpointName = JString ''diabetes-endpoint'', NODE_ENV = Some ''development''\<rparr>
          \<lparr>validationTimestamp = ''2026-11-01T10:00:00.000Z'', startTime = 1, requestIdTime = 1,
            requestIdRandom = ''abc'', sagemakerStartTime = 2, sagemakerEndTime = 3, endTime = 4,
            timestamp = ''2026-11-01T10:00:00.004Z''\<rparr>
          (testData_with ''Age'' (JNumber (Fin 15)))) = [] \<and>
   validatePredictionInput StringToNumber ''2026-11-01T10:00:00.000Z''
       (testData_with ''Age'' (JNumber (Fin 15))) =
     Responded \<lparr>status = 400, json_body = JObject
       [(''error'', JString ''Invalid data ranges''),
        (''validation_errors'', JArray [JString ''Age must be a number between 18 and 120'']),
        (''timestamp'', JString ''2026-11-01T10:00:00.000Z'')]\<rparr>"
proof -
  let ?d = "testData_with ''Age'' (JNumber (Fin 15))"
  let ?c = "\<lparr>validationTimestamp = ''2026-11-01T10:00:00.000Z'', startTime = 1, requestIdTime = 1,
            requestIdRandom = ''abc'', sagemakerStartTime = 2, sagemakerEndTime = 3, endTime = 4,
            timestamp = ''2026-11-01T10:00:00.004Z''\<rparr>"
  have n: "\<not> is_nullish ?d" by (simp add: is_nullish_def testData_with_def)
  have m: "missingFields ?d = []"
    by (simp add: missingFields_def requiredFields_def testData_with_def testData_def is_missing_def)
  have t: "\<not> any_throws ?d requiredFields"
    by (simp add: any_throws_def requiredFields_def testData_with_def testData_def)
  have k: "(''Age'', Range 18 120, ''Age must be a number between 18 and 120'') \<in> set checks"
    by (simp add: checks_def)
  have o: "\<not> spec_in_range (Range 18 120) (numeric StringToNumber (js_get ?d ''Age''))"
    by (simp add: testData_with_def testData_def numeric_def)
  have f: "failed_checks StringToNumber ?d checks = [''Age must be a number between 18 and 120'']"
    by (simp add: failed_checks_def checks_def testData_with_def testData_def numeric_def)
  show ?thesis
    using out_of_range_never_passes [OF n m k o, of ?c "\<lambda>calls params. Resolved (Json JNull)"
        "\<lparr>endpointName = JString ''diabetes-endpoint'', NODE_ENV = Some ''development''\<rparr>"]
      n m t f
    by simp
qed

text \<open>
  C1 as stated fails: every field of \<open>unconvertible_record\<close> is present and its age, 15,
  is outside 18 to 120, yet the answer is status 500 and names no field.
\<close>

theorem out_of_range_status_500_counterexample:
  "missingFields unconvertible_record = [] \<and>
   ToNumber StringToNumber (js_get unconvertible_record ''Age'') = Inr (Fin 15) \<and>
   \<not> spec_in_range (Range 18 120) (Fin 15) \<and>
   validatePredictionInput StringToNumber ''2026-11-01T10:00:00.000Z'' unconvertible_record =
     Responded \<lparr>status = 500, json_body = JObject
       [(''error'', JString ''Validation processing failed''),
        (''message'', JString ''Cannot convert object to primitive value''),
        (''timestamp'', JString ''2026-11-01T10:00:00.000Z'')]\<rparr>"
proof -
  have m: "missingFields unconvertible_record = []"
    by (simp add: missingFields_def requiredFields_def unconvertible_record_def testData_def
          is_missing_def)
  have a: "ToNumber StringToNumber (js_get unconvertible_record ''Age'') = Inr (Fin 15)"
    by (simp add: unconvertible_record_def testData_def)
  have n: "\<not> is_nullish unconvertible_record"
    by (simp add: is_nullish_def unconvertible_record_def)
  have e: "validationErrors StringToNumber unconvertible_record = Inl primitive_TypeError"
    by (simp add: validationErrors_def unconvertible_record_def testData_def push_if_def
          out_of_range_def isNaN_def js_lt_def js_gt_def bindE_def has_own_def)
  have v: "validatePredictionInput StringToNumber ''2026-11-01T10:00:00.000Z'' unconvertible_record =
     Responded \<lparr>status = 500, json_body = JObject
       [(''error'', JString ''Validation processing failed''),
        (''message'', JString ''Cannot convert object to primitive value''),
        (''timestamp'', JString ''2026-11-01T10:00:00.000Z'')]\<rparr>"
    by (simp add: validatePredictionInput_def validate_try_def m e n bindE_def
          primitive_TypeError_def)
  from m a v show ?thesis by simp
qed

text \<open>
  C6. When the validator passes an input on, the record it stores has exactly the ten
  required fields, in order, each holding the number that \<^verbatim>\<open>Number\<close> makes of the input
  value, and that number is in the declared range of the field (0 or 1 for the two flags);
  nothing else is done to the values. The scenario record, already numeric and in range,
  is passed on as it is.
\<close>

theorem normalized_is_coercion:
  "(validatePredictionInput s2n now d = Next b \<longrightarrow>
      map fst (own_properties b) = requiredFields \<and>
      (\<forall>(f, chk, msg) \<in> set checks.
          \<exists>n. Number s2n (js_get d f) = Inr n \<and> js_get b f = JNumber n \<and> spec_in_range chk n)) \<and>
   validatePredictionInput s2n now (JObject testData) = Next (JObject testData)"
proof (intro conjI impI)
  assume pass: "validatePredictionInput s2n now d = Next b"
  let ?b = "JObject (map (\<lambda>f. (f, JNumber (numeric s2n (js_get d f)))) requiredFields)"
  from pass have b: "b = ?b"
    and ok: "failed_checks s2n d checks = []"
    and conv: "\<not> any_throws d requiredFields"
    by (auto simp: validate_cases split: if_splits)
  show "map fst (own_properties b) = requiredFields"
    by (simp add: b comp_def)
  show "\<forall>(f, chk, msg) \<in> set checks.
      \<exists>n. Number s2n (js_get d f) = Inr n \<and> js_get b f = JNumber n \<and> spec_in_range chk n"
  proof (clarify)
    fix f chk msg
    assume mem: "(f, chk, msg) \<in> set checks"
    then have "f \<in> set (map fst checks)" by force
    then have f: "f \<in> set requiredFields" by (simp add: map_fst_checks)
    with conv have "\<not> ToString_throws (js_get d f)" by (auto simp: any_throws_iff)
    then have 1: "Number s2n (js_get d f) = Inr (numeric s2n (js_get d f))"
      by (simp add: Number_def ToNumber_throws)
    have 2: "js_get b f = JNumber (numeric s2n (js_get d f))"
      unfolding b using f by (rule js_get_map_fields)
    from ok mem have 3: "spec_in_range chk (numeric s2n (js_get d f))"
      by (auto simp: failed_checks_Nil_iff)
    from 1 2 3
    show "\<exists>n. Number s2n (js_get d f) = Inr n \<and> js_get b f = JNumber n \<and> spec_in_range chk n"
      by blast
  qed
next
  have m: "missingFields (JObject testData) = []"
    by (simp add: missingFields_def requiredFields_def testData_def is_missing_def)
  have t: "\<not> any_throws (JObject testData) requiredFields"
    by (simp add: any_throws_def requiredFields_def testData_def)
  have f: "failed_checks s2n (JObject testData) checks = []"
    by (simp add: failed_checks_def checks_def testData_def numeric_def)
  have b: "map (\<lambda>f. (f, JNumber (numeric s2n (js_get (JObject testData) f)))) requiredFields = testData"
    by (simp add: requiredFields_def testData_def numeric_def)
  have n: "\<not> is_nullish (JObject testData)"
    by (simp add: is_nullish_def)
  show "validatePredictionInput s2n now (JObject testData) = Next (JObject testData)"
    by (simp only: validate_cases n m t f b if_False simp_thms)
qed

theorem normalized_is_coercion_witness:
  "validatePredictionInput StringToNumber ''2026-11-01T10:00:00.000Z''
       (testData_with ''Age'' (JString ''45'')) = Next (JObject testData) \<and>
   Number StringToNumber (js_get (testData_with ''Age'' (JString ''45'')) ''Age'') = Inr (Fin 45) \<and>
   js_get (JObject testData) ''Age'' = JNumber (Fin 45) \<and>
   map fst (own_properties (JObject testData)) = requiredFields"
proof -
  let ?d = "testData_with ''Age'' (JString ''45'')"
  have s: "StringToNumber ''45'' = Fin 45"
    by (simp add: StringToNumber_def trim_def isStrWhiteSpaceChar_def
          NonDecimalIntegerLiteral_def StrUnsignedDecimalLiteral_def Mantissa_def Digits_def
          digit_value_def ExponentPart_def scale10_def)
  have m: "missingFields ?d = []"
    by (simp add: missingFields_def requiredFields_def testData_with_def testData_def is_missing_def)
  have t: "\<not> any_throws ?d requiredFields"
    by (simp add: any_throws_def requiredFields_def testData_with_def testData_def)
  have f: "failed_checks StringToNumber ?d checks = []"
    by (simp add: failed_checks_def checks_def testData_with_def testData_def numeric_def s)
  have b: "map (\<lambda>f. (f, JNumber (numeric StringToNumber (js_get ?d f)))) requiredFields = testData"
    by (simp add: requiredFields_def testData_with_def testData_def numeric_def s)
  have u: "\<not> is_nullish ?d"
    by (simp add: is_nullish_def testData_with_def)
  have pass: "validatePredictionInput StringToNumber ''2026-11-01T10:00:00.000Z'' ?d = Next (JObject testData)"
    by (simp only: validate_cases u m t f b if_False simp_thms)
  have n: "Number StringToNumber (js_get ?d ''Age'') = Inr (Fin 45)"
    by (simp add: Number_def testData_with_def testData_def s)
  have g: "js_get (JObject testData) ''Age'' = JNumber (Fin 45)"
    by (simp add: testData_def)
  show ?thesis
    using normalized_is_coercion [of StringToNumber "''2026-11-01T10:00:00.000Z''" ?d "JObject testData"]
      pass n g
    by simp
qed

text \<open>
  C10. A flag field is checked on the number its value converts to. For a supplied value
  (present, so not \<^verbatim>\<open>null\<close> and not the empty string) that converts to \<open>n\<close>: the check
  \<^verbatim>\<open>![0, 1].includes(Number(v))\<close> fails exactly when \<open>n\<close> is neither 0 nor 1; with the other
  nine fields as in the scenario record, the validator passes the input on, the flag stored
  as the number \<open>n\<close>, exactly when \<open>n\<close> is 0 or 1, and answers with the range error of the
  flag otherwise. In any input with all fields present and convertible, the message of
  the flag is among the range errors exactly when the flag converts to neither 0 nor 1, and
  an input that is passed on has the flag stored as that number, 0 or 1. The values
  \<^verbatim>\<open>false\<close>, \<^verbatim>\<open>true\<close>, \<^verbatim>\<open>"0"\<close> and \<^verbatim>\<open>"1"\<close> convert to 0, 1, 0 and 1; the values
  \<^verbatim>\<open>0.5\<close>, \<^verbatim>\<open>2\<close> and \<^verbatim>\<open>"yes"\<close> convert to 0.5, 2 and not-a-number.
\<close>

theorem binary_flags:
  "((f, Binary, msg) \<in> set checks \<and> \<not> is_missing v \<and> Number s2n v = Inr n \<longrightarrow>
      not_binary s2n v = Inr (n \<noteq> Fin 0 \<and> n \<noteq> Fin 1) \<and>
      validatePredictionInput s2n now (testData_with f v) =
        (if n = Fin 0 \<or> n = Fin 1 then Next (testData_with f (JNumber n))
         else Responded \<lparr>status = 400, json_body = JObject
                [(''error'', JString ''Invalid data ranges''),
                 (''validation_errors'', JArray [JString msg]),
                 (''timestamp'', JString now)]\<rparr>)) \<and>
   ((f, Binary, msg) \<in> set checks \<and> \<not> is_nullish d \<and> missingFields d = [] \<and>
    \<not> any_throws d requiredFields \<and> Number s2n (js_get d f) = Inr m \<longrightarrow>
      (msg \<in> set (failed_checks s2n d checks) \<longleftrightarrow> m \<noteq> Fin 0 \<and> m \<noteq> Fin 1) \<and>
      (m \<noteq> Fin 0 \<and> m \<noteq> Fin 1 \<longrightarrow>
         validatePredictionInput s2n now d =
           Responded \<lparr>status = 400, json_body = JObject
             [(''error'', JString ''Invalid data ranges''),
              (''validation_errors'', JArray (map JString (failed_checks s2n d checks))),
              (''timestamp'', JString now)]\<rparr>) \<and>
      (\<forall>b. validatePredictionInput s2n now d = Next b \<longrightarrow>
         js_get b f = JNumber m \<and> (m = Fin 0 \<or> m = Fin 1))) \<and>
   Number s2n (JBool False) = Inr (Fin 0) \<and>
   Number s2n (JBool True) = Inr (Fin 1) \<and>
   Number StringToNumber (JString ''0'') = Inr (Fin 0) \<and>
   Number StringToNumber (JString ''1'') = Inr (Fin 1) \<and>
   Number s2n (JNumber (Fin (1 / 2))) = Inr (Fin (1 / 2)) \<and>
   Number s2n (JNumber (Fin 2)) = Inr (Fin 2) \<and>
   Number StringToNumber (JString ''yes'') = Inr NaN"
proof -
  have one: "(f, Binary, msg) \<in> set checks \<and> \<not> is_missing v \<and> Number s2n v = Inr n \<longrightarrow>
      not_binary s2n v = Inr (n \<noteq> Fin 0 \<and> n \<noteq> Fin 1) \<and>
      validatePredictionInput s2n now (testData_with f v) =
        (if n = Fin 0 \<or> n = Fin 1 then Next (testData_with f (JNumber n))
         else Responded \<lparr>status = 400, json_body = JObject
                [(''error'', JString ''Invalid data ranges''),
                 (''validation_errors'', JArray [JString msg]),
                 (''timestamp'', JString now)]\<rparr>)"
  proof (intro impI conjI)
    assume h: "(f, Binary, msg) \<in> set checks \<and> \<not> is_missing v \<and> Number s2n v = Inr n"
    from h show "not_binary s2n v = Inr (n \<noteq> Fin 0 \<and> n \<noteq> Fin 1)"
      by (simp add: not_binary_def bindE_def includes01_def)
    from h show "validatePredictionInput s2n now (testData_with f v) =
        (if n = Fin 0 \<or> n = Fin 1 then Next (testData_with f (JNumber n))
         else Responded \<lparr>status = 400, json_body = JObject
                [(''error'', JString ''Invalid data ranges''),
                 (''validation_errors'', JArray [JString msg]),
                 (''timestamp'', JString now)]\<rparr>)"
      by (intro validate_testData_with_flag) simp_all
  qed
  have two: "(f, Binary, msg) \<in> set checks \<and> \<not> is_nullish d \<and> missingFields d = [] \<and>
      \<not> any_throws d requiredFields \<and> Number s2n (js_get d f) = Inr m \<longrightarrow>
      (msg \<in> set (failed_checks s2n d checks) \<longleftrightarrow> m \<noteq> Fin 0 \<and> m \<noteq> Fin 1) \<and>
      (m \<noteq> Fin 0 \<and> m \<noteq> Fin 1 \<longrightarrow>
         validatePredictionInput s2n now d =
           Responded \<lparr>status = 400, json_body = JObject
             [(''error'', JString ''Invalid data ranges''),
              (''validation_errors'', JArray (map JString (failed_checks s2n d checks))),
              (''timestamp'', JString now)]\<rparr>) \<and>
      (\<forall>b. validatePredictionInput s2n now d = Next b \<longrightarrow>
         js_get b f = JNumber m \<and> (m = Fin 0 \<or> m = Fin 1))"
  proof (rule impI)
    assume h: "(f, Binary, msg) \<in> set checks \<and> \<not> is_nullish d \<and> missingFields d = [] \<and>
      \<not> any_throws d requiredFields \<and> Number s2n (js_get d f) = Inr m"
    from h have f: "(f, Binary, msg) \<in> set checks"
      and d: "\<not> is_nullish d" "missingFields d = []" "\<not> any_throws d requiredFields"
      and n: "Number s2n (js_get d f) = Inr m"
      by simp_all
    from n have num: "numeric s2n (js_get d f) = m" by (simp add: Number_numeric)
    have iff: "msg \<in> set (failed_checks s2n d checks) \<longleftrightarrow> m \<noteq> Fin 0 \<and> m \<noteq> Fin 1"
      using failed_checks_mem_iff [OF f, of s2n d] by (simp add: num)
    have bad: "validatePredictionInput s2n now d =
           Responded \<lparr>status = 400, json_body = JObject
             [(''error'', JString ''Invalid data ranges''),
              (''validation_errors'', JArray (map JString (failed_checks s2n d checks))),
              (''timestamp'', JString now)]\<rparr>"
      if "m \<noteq> Fin 0 \<and> m \<noteq> Fin 1"
    proof -
      from that iff have "msg \<in> set (failed_checks s2n d checks)" by simp
      then have "failed_checks s2n d checks \<noteq> []" by auto
      with d show ?thesis by (simp add: validate_cases)
    qed
    have pass: "js_get b f = JNumber m \<and> (m = Fin 0 \<or> m = Fin 1)"
      if p: "validatePredictionInput s2n now d = Next b" for b
    proof -
      from p have b: "b = JObject (map (\<lambda>f. (f, JNumber (numeric s2n (js_get d f)))) requiredFields)"
        and ok: "failed_checks s2n d checks = []"
        by (auto simp: validate_cases split: if_splits)
      from f have "f \<in> set (map fst checks)" by force
      then have "f \<in> set requiredFields" by (simp add: map_fst_checks)
      then have "js_get b f = JNumber (numeric s2n (js_get d f))"
        unfolding b by (rule js_get_map_fields)
      moreover from ok f have "spec_in_range Binary (numeric s2n (js_get d f))"
        by (auto simp: failed_checks_Nil_iff)
      ultimately show ?thesis by (simp add: num)
    qed
    from iff bad pass
    show "(msg \<in> set (failed_checks s2n d checks) \<longleftrightarrow> m \<noteq> Fin 0 \<and> m \<noteq> Fin 1) \<and>
      (m \<noteq> Fin 0 \<and> m \<noteq> Fin 1 \<longrightarrow>
         validatePredictionInput s2n now d =
           Responded \<lparr>status = 400, json_body = JObject
             [(''error'', JString ''Invalid data ranges''),
              (''validation_errors'', JArray (map JString (failed_checks s2n d checks))),
              (''timestamp'', JString now)]\<rparr>) \<and>
      (\<forall>b. validatePredictionInput s2n now d = Next b \<longrightarrow>
         js_get b f = JNumber m \<and> (m = Fin 0 \<or> m = Fin 1))"
      by (intro conjI impI allI) simp_all
  qed
  show ?thesis
    by (intro conjI one two Number_examples)
qed

theorem binary_flags_witness:
  "validatePredictionInput StringToNumber ''2026-11-01T10:00:00.000Z''
       (testData_with ''Hypertension'' (JBool True)) =
     Next (testData_with ''Hypertension'' (JNumber (Fin 1))) \<and>
   validatePredictionInput StringToNumber ''2026-11-01T10:00:00.000Z''
       (testData_with ''Family_History_Diabetes'' (JString ''1'')) =
     Next (testData_with ''Family_History_Diabetes'' (JNumber (Fin 1))) \<and>
   validatePredictionInput StringToNumber ''2026-11-01T10:00:00.000Z''
       (testData_with ''Family_History_Diabetes'' (JString ''yes'')) =
     Responded \<lparr>status = 400, json_body = JObject
       [(''error'', JString ''Invalid data ranges''),
        (''validation_errors'', JArray [JString ''Family_History_Diabetes must be 0 or 1'']),
        (''timestamp'', JString ''2026-11-01T10:00:00.000Z'')]\<rparr> \<and>
   validatePredictionInput StringToNumber ''2026-11-01T10:00:00.000Z''
       (testData_with ''Hypertension'' (JNumber (Fin 2))) =
     Responded \<lparr>status = 400, json_body = JObject
       [(''error'', JString ''Invalid data ranges''),
        (''validation_errors'', JArray [JString ''Hypertension must be 0 or 1'']),
        (''timestamp'', JString ''2026-11-01T10:00:00.000Z'')]\<rparr>"
proof -
  have h: "(''Hypertension'', Binary, ''Hypertension must be 0 or 1'') \<in> set checks"
    and g: "(''Family_History_Diabetes'', Binary, ''Family_History_Diabetes must be 0 or 1'') \<in> set checks"
    by (simp_all add: checks_def)
  have p: "\<not> is_missing (JBool True)" "\<not> is_missing (JString ''1'')"
    "\<not> is_missing (JString ''yes'')" "\<not> is_missing (JNumber (Fin 2))"
    by (simp_all add: is_missing_def)
  note ex = Number_examples
  note flag = binary_flags [THEN conjunct1, THEN mp, THEN conjunct2]
  have a: "validatePredictionInput StringToNumber ''2026-11-01T10:00:00.000Z''
       (testData_with ''Hypertension'' (JBool True)) =
     Next (testData_with ''Hypertension'' (JNumber (Fin 1)))"
    using flag [of "''Hypertension''" "''Hypertension must be 0 or 1''" "JBool True"
        StringToNumber "Fin 1" "''2026-11-01T10:00:00.000Z''", OF conjI [OF h conjI [OF p(1) ex(2)]]]
    by (simp only: simp_thms if_True)
  have b: "validatePredictionInput StringToNumber ''2026-11-01T10:00:00.000Z''
       (testData_with ''Family_History_Diabetes'' (JString ''1'')) =
     Next (testData_with ''Family_History_Diabetes'' (JNumber (Fin 1)))"
    using flag [of "''Family_History_Diabetes''" "''Family_History_Diabetes must be 0 or 1''"
        "JString ''1''" StringToNumber "Fin 1" "''2026-11-01T10:00:00.000Z''",
        OF conjI [OF g conjI [OF p(2) ex(4)]]]
    by (simp only: simp_thms if_True)
  have c: "validatePredictionInput StringToNumber ''2026-11-01T10:00:00.000Z''
       (testData_with ''Family_History_Diabetes'' (JString ''yes'')) =
     Responded \<lparr>status = 400, json_body = JObject
       [(''error'', JString ''Invalid data ranges''),
        (''validation_errors'', JArray [JString ''Family_History_Diabetes must be 0 or 1'']),
        (''timestamp'', JString ''2026-11-01T10:00:00.000Z'')]\<rparr>"
    using flag [of "''Family_History_Diabetes''" "''Family_History_Diabetes must be 0 or 1''"
        "JString ''yes''" StringToNumber NaN "''2026-11-01T10:00:00.000Z''",
        OF conjI [OF g conjI [OF p(3) ex(7)]]]
    by (simp only: jsnum.distinct simp_thms if_False)
  have e: "validatePredictionInput StringToNumber ''2026-11-01T10:00:00.000Z''
       (testData_with ''Hypertension'' (JNumber (Fin 2))) =
     Responded \<lparr>status = 400, json_body = JObject
       [(''error'', JString ''Invalid data ranges''),
        (''validation_errors'', JArray [JString ''Hypertension must be 0 or 1'']),
        (''timestamp'', JString ''2026-11-01T10:00:00.000Z'')]\<rparr>"
    using flag [of "''Hypertension''" "''Hypertension must be 0 or 1''" "JNumber (Fin 2)"
        StringToNumber "Fin 2" "''2026-11-01T10:00:00.000Z''", OF conjI [OF h conjI [OF p(4) ex(6)]]]
    by simp
  from a b c e show ?thesis by (intro conjI)
qed

text \<open>
  C4. A batch request whose \<^verbatim>\<open>patients\<close> is not an array or is an empty array is answered
  with status 400 and the message "Invalid batch data - expecting array of patients"; one
  with more than ten items is answered with status 400 and the message "Batch size limited
  to 10 patients"; in both cases the endpoint is called zero times.
\<close>

theorem batch_structural_errors:
  "(\<not> is_nullish body \<and>
    (\<not> Array_isArray (js_get body ''patients'') \<or> js_get body ''patients'' = JArray []) \<longrightarrow>
      predict_batch endpoint env now body =
        (\<lparr>status = 400, json_body = JObject
            [(''error'', JString ''Invalid batch data - expecting array of patients''),
             (''timestamp'', JString now)]\<rparr>, [])) \<and>
   (js_get body ''patients'' = JArray ps \<and> length ps > 10 \<longrightarrow>
      predict_batch endpoint env now body =
        (\<lparr>status = 400, json_body = JObject
            [(''error'', JString ''Batch size limited to 10 patients''),
             (''timestamp'', JString now)]\<rparr>, []))"
proof (intro conjI impI)
  assume h: "\<not> is_nullish body \<and>
    (\<not> Array_isArray (js_get body ''patients'') \<or> js_get body ''patients'' = JArray [])"
  then have "\<not> Array_isArray (js_get body ''patients'') \<or> elements (js_get body ''patients'') = []"
    by (auto simp: elements_def)
  with h show "predict_batch endpoint env now body =
        (\<lparr>status = 400, json_body = JObject
            [(''error'', JString ''Invalid batch data - expecting array of patients''),
             (''timestamp'', JString now)]\<rparr>, [])"
    by (simp add: predict_batch_cases)
next
  assume h: "js_get body ''patients'' = JArray ps \<and> length ps > 10"
  then have n: "\<not> is_nullish body"
    using js_get_nullish [of body "''patients''"] by auto
  from h have "Array_isArray (js_get body ''patients'')" "elements (js_get body ''patients'') = ps"
    by (simp_all add: Array_isArray_def elements_def)
  with h n show "predict_batch endpoint env now body =
        (\<lparr>status = 400, json_body = JObject
            [(''error'', JString ''Batch size limited to 10 patients''),
             (''timestamp'', JString now)]\<rparr>, [])"
    by (auto simp: predict_batch_cases)
qed

theorem batch_structural_errors_witness:
  "predict_batch (\<lambda>calls params. Resolved (Json JNull)) env_development
       ''2026-11-01T10:00:00.000Z'' (JObject [(''patients'', JArray [])]) =
     (\<lparr>status = 400, json_body = JObject
         [(''error'', JString ''Invalid batch data - expecting array of patients''),
          (''timestamp'', JString ''2026-11-01T10:00:00.000Z'')]\<rparr>, []) \<and>
   predict_batch (\<lambda>calls params. Resolved (Json JNull)) env_development
       ''2026-11-01T10:00:00.000Z'' (JObject [(''patients'', JArray (replicate 11 (JObject testData)))]) =
     (\<lparr>status = 400, json_body = JObject
         [(''error'', JString ''Batch size limited to 10 patients''),
          (''timestamp'', JString ''2026-11-01T10:00:00.000Z'')]\<rparr>, [])"
proof -
  have a: "\<not> is_nullish (JObject [(''patients'', JArray [])]) \<and>
      (\<not> Array_isArray (js_get (JObject [(''patients'', JArray [])]) ''patients'') \<or>
       js_get (JObject [(''patients'', JArray [])]) ''patients'' = JArray [])"
    by (simp add: is_nullish_def)
  have b: "js_get (JObject [(''patients'', JArray (replicate 11 (JObject testData)))]) ''patients'' =
        JArray (replicate 11 (JObject testData)) \<and>
      length (replicate 11 (JObject testData)) > 10"
    by simp
  from batch_structural_errors [THEN conjunct1, THEN mp, OF a]
    batch_structural_errors [THEN conjunct2, THEN mp, OF b]
  show ?thesis by (intro conjI)
qed

text \<open>
  C2. For a batch of \<open>N\<close> items, \<open>N\<close> from 1 to 10, the answer has status 200 and exactly
  \<open>N\<close> outcomes in the order of the input: outcome \<open>i\<close> carries \<^verbatim>\<open>patient_index\<close> \<open>i\<close>
  and is what the \<open>i\<close>-th call made of item \<open>i\<close>, tagged \<^verbatim>\<open>success\<close> with the parsed
  result, or \<^verbatim>\<open>failed\<close> with the message of the error. The endpoint is called once for
  every item, in order, whatever the earlier calls returned. The counts of successes and
  failures add up to \<^verbatim>\<open>total_patients\<close>, which is \<open>N\<close>.
\<close>

theorem batch_outcomes:
  assumes "js_get body ''patients'' = JArray ps" and "1 \<le> length ps" and "length ps \<le> 10"
  shows "predict_batch endpoint env now body =
      (\<lparr>status = 200, json_body = JObject
          [(''batch_results'', JArray (batch_results endpoint env ps)),
           (''total_patients'', count (length ps)),
           (''successful_predictions'',
              count (length (filter (has_status ''success'') (batch_results endpoint env ps)))),
           (''failed_predictions'',
              count (length (filter (has_status ''failed'') (batch_results endpoint env ps)))),
           (''processed_at'', JString now)]\<rparr>,
       batch_calls env ps) \<and>
    length (batch_results endpoint env ps) = length ps \<and>
    map Body (batch_calls env ps) = ps \<and>
    (\<forall>i < length ps.
       js_get (batch_results endpoint env ps ! i) ''patient_index'' = count i \<and>
       (case batch_reply endpoint env ps i of
          Inr result \<Rightarrow>
            batch_results endpoint env ps ! i =
              JObject [(''patient_index'', count i), (''result'', result),
                       (''status'', JString ''success'')]
        | Inl error \<Rightarrow>
            batch_results endpoint env ps ! i =
              JObject [(''patient_index'', count i), (''error'', JString (message error)),
                       (''status'', JString ''failed'')])) \<and>
    length (filter (has_status ''success'') (batch_results endpoint env ps)) +
      length (filter (has_status ''failed'') (batch_results endpoint env ps)) = length ps"
proof -
  from assms(1) have n: "\<not> is_nullish body"
    using js_get_nullish [of body "''patients''"] by auto
  from assms(1) have arr: "Array_isArray (js_get body ''patients'')"
    and el: "elements (js_get body ''patients'') = ps"
    by (simp_all add: Array_isArray_def elements_def)
  from assms(2) have ne: "ps \<noteq> []" by auto
  have 1: "predict_batch endpoint env now body =
      (\<lparr>status = 200, json_body = JObject
          [(''batch_results'', JArray (batch_results endpoint env ps)),
           (''total_patients'', count (length ps)),
           (''successful_predictions'',
              count (length (filter (has_status ''success'') (batch_results endpoint env ps)))),
           (''failed_predictions'',
              count (length (filter (has_status ''failed'') (batch_results endpoint env ps)))),
           (''processed_at'', JString now)]\<rparr>,
       batch_calls env ps)"
    using n arr ne assms(3) by (simp add: predict_batch_cases el)
  have 2: "length (batch_results endpoint env ps) = length ps"
    by (simp add: batch_results_def)
  have 3: "map Body (batch_calls env ps) = ps"
    by (simp add: batch_calls_def batch_params_def comp_def)
  have 4: "js_get (batch_results endpoint env ps ! i) ''patient_index'' = count i \<and>
       (case batch_reply endpoint env ps i of
          Inr result \<Rightarrow>
            batch_results endpoint env ps ! i =
              JObject [(''patient_index'', count i), (''result'', result),
                       (''status'', JString ''success'')]
        | Inl error \<Rightarrow>
            batch_results endpoint env ps ! i =
              JObject [(''patient_index'', count i), (''error'', JString (message error)),
                       (''status'', JString ''failed'')])"
    if "i < length ps" for i
    using that
    by (cases "batch_reply endpoint env ps i")
       (simp_all add: batch_results_nth batch_outcome_def count_def)
  from 1 2 3 4 batch_results_counts [of endpoint env ps] show ?thesis
    by (intro conjI allI impI) simp_all
qed

theorem batch_outcomes_witness:
  "predict_batch fails_second env_development ''2026-11-01T10:00:00.000Z''
       (JObject [(''patients'', JArray [JObject testData, JNull, JObject testData])]) =
     (\<lparr>status = 200, json_body = JObject
         [(''batch_results'', JArray
             [JObject [(''patient_index'', count 0), (''result'', low_risk),
                       (''status'', JString ''success'')],
              JObject [(''patient_index'', count 1), (''error'', JString ''model container crashed''),
                       (''status'', JString ''failed'')],
              JObject [(''patient_index'', count 2), (''result'', low_risk),
                       (''status'', JString ''success'')]]),
          (''total_patients'', count 3),
          (''successful_predictions'', count 2),
          (''failed_predictions'', count 1),
          (''processed_at'', JString ''2026-11-01T10:00:00.000Z'')]\<rparr>,
      [batch_params env_development (JObject testData),
       batch_params env_development JNull,
       batch_params env_development (JObject testData)])"
proof -
  let ?ps = "[JObject testData, JNull, JObject testData]"
  have a: "js_get (JObject [(''patients'', JArray ?ps)]) ''patients'' = JArray ?ps"
    by simp
  have b: "1 \<le> length ?ps" and c: "length ?ps \<le> 10"
    by simp_all
  have r: "batch_results fails_second env_development ?ps =
      [JObject [(''patient_index'', count 0), (''result'', low_risk),
                (''status'', JString ''success'')],
       JObject [(''patient_index'', count 1), (''error'', JString ''model container crashed''),
                (''status'', JString ''failed'')],
       JObject [(''patient_index'', count 2), (''result'', low_risk),
                (''status'', JString ''success'')]]"
    by (simp add: batch_results_def batch_reply_def batch_calls_def batch_outcome_def
          fails_second_def invokeEndpoint_def JSON_parse_def bindE_def count_def
          upt_conv_Cons numeral_3_eq_3)
  have k: "batch_calls env_development ?ps =
      [batch_params env_development (JObject testData),
       batch_params env_development JNull,
       batch_params env_development (JObject testData)]"
    by (simp add: batch_calls_def)
  have s: "length (filter (has_status ''success'')
        [JObject [(''patient_index'', count 0), (''result'', low_risk),
                (''status'', JString ''success'')],
       JObject [(''patient_index'', count 1), (''error'', JString ''model container crashed''),
                (''status'', JString ''failed'')],
       JObject [(''patient_index'', count 2), (''result'', low_risk),
                (''status'', JString ''success'')]]) = 2"
    and f: "length (filter (has_status ''failed'')
        [JObject [(''patient_index'', count 0), (''result'', low_risk),
                (''status'', JString ''success'')],
       JObject [(''patient_index'', count 1), (''error'', JString ''model container crashed''),
                (''status'', JString ''failed'')],
       JObject [(''patient_index'', count 2), (''result'', low_risk),
                (''status'', JString ''success'')]]) = 1"
    and l: "length ?ps = 3"
    by (simp_all add: has_status_def)
  from batch_outcomes [OF a b c, of fails_second env_development "''2026-11-01T10:00:00.000Z''",
      THEN conjunct1]
  show ?thesis
    by (simp only: r k s f l)
qed

text \<open>
  C8 does not hold of the code. The batch route has no validator in front of it: the loop
  sends each item to the endpoint as it came in. A record with an age of 15, which the
  route of a single prediction rejects without calling the endpoint, is sent to the
  endpoint when it comes in a batch.
\<close>

theorem batch_sends_unvalidated_record:
  "snd (predict_route s2n endpoint env c (testData_with ''Age'' (JNumber (Fin 15)))) = [] \<and>
   snd (predict_batch endpoint env now
          (JObject [(''patients'', JArray [testData_with ''Age'' (JNumber (Fin 15))])])) =
     [\<lparr>EndpointName = endpointName env, ContentType = ''application/json'',
       Body = testData_with ''Age'' (JNumber (Fin 15))\<rparr>]"
proof
  let ?d = "testData_with ''Age'' (JNumber (Fin 15))"
  have n: "\<not> is_nullish ?d" by (simp add: is_nullish_def testData_with_def)
  have m: "missingFields ?d = []"
    by (simp add: missingFields_def requiredFields_def testData_with_def testData_def is_missing_def)
  have t: "\<not> any_throws ?d requiredFields"
    by (simp add: any_throws_def requiredFields_def testData_with_def testData_def)
  have f: "failed_checks s2n ?d checks = [''Age must be a number between 18 and 120'']"
    by (simp add: failed_checks_def checks_def testData_with_def testData_def numeric_def)
  have "validatePredictionInput s2n (validationTimestamp c) ?d =
      Responded \<lparr>status = 400, json_body = JObject
        [(''error'', JString ''Invalid data ranges''),
         (''validation_errors'', JArray [JString ''Age must be a number between 18 and 120'']),
         (''timestamp'', JString (validationTimestamp c))]\<rparr>"
    by (simp only: validate_cases n m t f if_False if_True simp_thms list.simps not_Cons_self2)
  then show "snd (predict_route s2n endpoint env c ?d) = []"
    by (simp add: predict_route_def)
next
  let ?d = "testData_with ''Age'' (JNumber (Fin 15))"
  have a: "js_get (JObject [(''patients'', JArray [?d])]) ''patients'' = JArray [?d]"
    by simp
  have "snd (predict_batch endpoint env now (JObject [(''patients'', JArray [?d])])) =
      batch_calls env [?d]"
    using batch_loop_results [of endpoint env "[?d]"]
    by (simp add: predict_batch_def batch_try_def is_nullish_def Array_isArray_def elements_def)
  then show "snd (predict_batch endpoint env now (JObject [(''patients'', JArray [?d])])) =
     [\<lparr>EndpointName = endpointName env, ContentType = ''application/json'', Body = ?d\<rparr>]"
    by (simp add: batch_calls_def batch_params_def)
qed

text \<open>
  C3, as the code has it. Every failure raised in the handler of a single prediction is
  answered through one table: the error code \<^verbatim>\<open>ValidationException\<close> gives status 400,
  \<^verbatim>\<open>AccessDenied\<close> 403, \<^verbatim>\<open>ServiceUnavailable\<close> 503, \<^verbatim>\<open>ThrottlingException\<close> 429,
  \<^verbatim>\<open>ModelError\<close> 502, and every other error, with another code or with none, status 500;
  each status is the status of exactly one kind of the specification. An error of the
  endpoint reaches the table as it was raised. The message of the error is put in the
  answer, as \<^verbatim>\<open>details\<close>, exactly when \<^verbatim>\<open>NODE_ENV\<close> is \<^verbatim>\<open>development\<close>; in any other
  environment the answer has no details.
\<close>

theorem failures_are_classified:
  "(predict_try endpoint env c d = Inl error \<longrightarrow>
      predict_handler endpoint env c d =
        (\<lparr>status = fst (classify error), json_body = JObject
            [(''error'', JString (snd (classify error))),
             (''request_id'', JString (requestId c)),
             (''details'', if NODE_ENV env = Some ''development'' then JString (message error)
                           else JUndefined),
             (''timestamp'', JString (timestamp c)),
             (''processing_time_ms'', ms (endTime c - startTime c))]\<rparr>,
         [predict_params env d])) \<and>
   (endpoint [] (predict_params env d) = Rejected error \<longrightarrow>
      predict_try endpoint env c d = Inl error) \<and>
   (code error = Some ''ValidationException'' \<longrightarrow>
      classify error = (400, ''Invalid input data format'')) \<and>
   (code error = Some ''AccessDenied'' \<longrightarrow>
      classify error = (403, ''Access denied to SageMaker endpoint'')) \<and>
   (code error = Some ''ServiceUnavailable'' \<longrightarrow>
      classify error = (503, ''SageMaker service temporarily unavailable'')) \<and>
   (code error = Some ''ThrottlingException'' \<longrightarrow>
      classify error = (429, ''Too many requests - rate limit exceeded'')) \<and>
   (code error = Some ''ModelError'' \<longrightarrow>
      classify error = (502, ''Machine learning model error'')) \<and>
   (code error \<notin> {Some ''ValidationException'', Some ''AccessDenied'', Some ''ServiceUnavailable'',
                  Some ''ThrottlingException'', Some ''ModelError''} \<longrightarrow>
      classify error = (500, ''Internal server error'')) \<and>
   spec_kind_of_status (fst (classify error)) =
     Some (if code error = Some ''ValidationException'' then invalid_input
           else if code error = Some ''AccessDenied'' then access_denied
           else if code error = Some ''ServiceUnavailable'' then service_unavailable
           else if code error = Some ''ThrottlingException'' then rate_limited
           else if code error = Some ''ModelError'' then model_error
           else internal)"
proof (intro conjI impI)
  assume "predict_try endpoint env c d = Inl error"
  then show "predict_handler endpoint env c d =
        (\<lparr>status = fst (classify error), json_body = JObject
            [(''error'', JString (snd (classify error))),
             (''request_id'', JString (requestId c)),
             (''details'', if NODE_ENV env = Some ''development'' then JString (message error)
                           else JUndefined),
             (''timestamp'', JString (timestamp c)),
             (''processing_time_ms'', ms (endTime c - startTime c))]\<rparr>,
         [predict_params env d])"
    by (simp add: predict_handler_def error_response_def)
next
  assume "endpoint [] (predict_params env d) = Rejected error"
  then show "predict_try endpoint env c d = Inl error"
    by (simp add: predict_try_cases)
qed (simp_all add: classify_def spec_kind_of_status_def)

theorem failures_are_classified_witness:
  "predict_handler rejects env_development clock0 (JObject testData) =
     (\<lparr>status = 502, json_body = JObject
         [(''error'', JString ''Machine learning model error''),
          (''request_id'', JString ''req_1700000000001_k3j9x2m1q''),
          (''details'', JString ''model container crashed''),
          (''timestamp'', JString ''2026-11-01T10:00:00.041Z''),
          (''processing_time_ms'', ms 40)]\<rparr>,
      [predict_params env_development (JObject testData)])"
proof -
  let ?e = "\<lparr>code = Some ''ModelError'', message = ''model container crashed''\<rparr>"
  have t: "predict_try rejects env_development clock0 (JObject testData) = Inl ?e"
    by (simp add: predict_try_cases rejects_def)
  have k: "classify ?e = (502, ''Machine learning model error'')"
    by (simp add: classify_def)
  have v: "NODE_ENV env_development = Some ''development''"
    "timestamp clock0 = ''2026-11-01T10:00:00.041Z''"
    "endTime clock0 - startTime clock0 = 40"
    by (simp_all add: env_development_def clock0_def)
  from failures_are_classified [THEN conjunct1, THEN mp, OF t]
  show ?thesis
    by (simp only: k v requestId_clock0 fst_conv snd_conv if_True simp_thms js_error.simps)
qed

text \<open>
  C3 as stated fails on the message: with \<^verbatim>\<open>NODE_ENV\<close> set to \<^verbatim>\<open>test\<close>, which is not
  production, the answer to a rejected call has no details.
\<close>

theorem no_details_outside_development_counterexample:
  "NODE_ENV env_test \<noteq> Some ''production'' \<and>
   predict_handler rejects env_test clock0 (JObject testData) =
     (\<lparr>status = 502, json_body = JObject
         [(''error'', JString ''Machine learning model error''),
          (''request_id'', JString ''req_1700000000001_k3j9x2m1q''),
          (''details'', JUndefined),
          (''timestamp'', JString ''2026-11-01T10:00:00.041Z''),
          (''processing_time_ms'', ms 40)]\<rparr>,
      [predict_params env_test (JObject testData)])"
proof -
  have t: "predict_try rejects env_test clock0 (JObject testData) =
      Inl \<lparr>code = Some ''ModelError'', message = ''model container crashed''\<rparr>"
    by (simp add: predict_try_cases rejects_def)
  have v: "NODE_ENV env_test = Some ''test''"
    "timestamp clock0 = ''2026-11-01T10:00:00.041Z''"
    "endTime clock0 - startTime clock0 = 40"
    by (simp_all add: env_test_def clock0_def)
  show ?thesis
    by (simp add: predict_handler_def t error_response_def classify_def v requestId_clock0)
qed

text \<open>
  C7, as the code has it. When the call to the endpoint succeeds and the body of the
  response is not JSON, the \<^verbatim>\<open>SyntaxError\<close> of the parser has no code and falls through
  the table to its default: the answer has status 500 and the message "Internal server
  error", the status of the kind \<open>internal\<close>, as for any other unclassified failure. The
  code has no kind of its own for a malformed response.
\<close>

theorem malformed_response_is_internal:
  "(endpoint [] (predict_params env d) = Resolved (Malformed m) \<longrightarrow>
      predict_handler endpoint env c d =
        (\<lparr>status = 500, json_body = JObject
            [(''error'', JString ''Internal server error''),
             (''request_id'', JString (requestId c)),
             (''details'', if NODE_ENV env = Some ''development'' then JString m else JUndefined),
             (''timestamp'', JString (timestamp c)),
             (''processing_time_ms'', ms (endTime c - startTime c))]\<rparr>,
         [predict_params env d]) \<and>
      fst (predict_handler endpoint env c d) = error_response env c \<lparr>code = None, message = m\<rparr> \<and>
      fst (predict_handler endpoint env c d) =
        error_response env c \<lparr>code = Some ''UnknownEndpoint'', message = m\<rparr>) \<and>
   spec_kind_of_status 500 = Some internal"
proof (intro conjI impI)
  assume h: "endpoint [] (predict_params env d) = Resolved (Malformed m)"
  then have t: "predict_try endpoint env c d = Inl \<lparr>code = None, message = m\<rparr>"
    by (simp add: predict_try_cases)
  show "predict_handler endpoint env c d =
        (\<lparr>status = 500, json_body = JObject
            [(''error'', JString ''Internal server error''),
             (''request_id'', JString (requestId c)),
             (''details'', if NODE_ENV env = Some ''development'' then JString m else JUndefined),
             (''timestamp'', JString (timestamp c)),
             (''processing_time_ms'', ms (endTime c - startTime c))]\<rparr>,
         [predict_params env d])"
    by (simp add: predict_handler_def t error_response_def classify_def)
  show "fst (predict_handler endpoint env c d) = error_response env c \<lparr>code = None, message = m\<rparr>"
    by (simp add: predict_handler_def t)
  show "fst (predict_handler endpoint env c d) =
        error_response env c \<lparr>code = Some ''UnknownEndpoint'', message = m\<rparr>"
    by (simp add: predict_handler_def t error_response_def classify_def)
next
  show "spec_kind_of_status 500 = Some internal"
    by (simp add: spec_kind_of_status_def)
qed

theorem malformed_response_is_internal_witness:
  "predict_handler garbled env_development clock0 (JObject testData) =
     (\<lparr>status = 500, json_body = JObject
         [(''error'', JString ''Internal server error''),
          (''request_id'', JString ''req_1700000000001_k3j9x2m1q''),
          (''details'', JString ''Unexpected token < in JSON at position 0''),
          (''timestamp'', JString ''2026-11-01T10:00:00.041Z''),
          (''processing_time_ms'', ms 40)]\<rparr>,
      [predict_params env_development (JObject testData)])"
proof -
  have g: "garbled [] (predict_params env_development (JObject testData)) =
      Resolved (Malformed ''Unexpected token < in JSON at position 0'')"
    by (simp add: garbled_def)
  have v: "NODE_ENV env_development = Some ''development''"
    "timestamp clock0 = ''2026-11-01T10:00:00.041Z''"
    "endTime clock0 - startTime clock0 = 40"
    by (simp_all add: env_development_def clock0_def)
  from malformed_response_is_internal [of garbled env_development "JObject testData"
      "''Unexpected token < in JSON at position 0''" clock0,
      THEN conjunct1, THEN mp, OF g, THEN conjunct1]
  show ?thesis
    by (simp only: v requestId_clock0 if_True simp_thms)
qed

text \<open>
  C7 as stated fails: the answer to a response body that is not JSON has the status of the
  kind \<open>internal\<close>, which is not the kind \<open>malformed_response\<close>, and is the very answer
  given to a failure with an unmapped code and the same message.
\<close>

theorem malformed_response_kind_counterexample:
  "garbled [] (predict_params env_development (JObject testData)) =
     Resolved (Malformed ''Unexpected token < in JSON at position 0'') \<and>
   status (fst (predict_handler garbled env_development clock0 (JObject testData))) = 500 \<and>
   js_get (json_body (fst (predict_handler garbled env_development clock0 (JObject testData))))
       ''error'' = JString ''Internal server error'' \<and>
   spec_kind_of_status (status (fst (predict_handler garbled env_development clock0 (JObject testData)))) =
     Some internal \<and>
   internal \<noteq> malformed_response \<and>
   fst (predict_handler garbled env_development clock0 (JObject testData)) =
     error_response env_development clock0
       \<lparr>code = Some ''UnknownEndpoint'', message = ''Unexpected token < in JSON at position 0''\<rparr>"
proof -
  have t: "predict_try garbled env_development clock0 (JObject testData) =
      Inl \<lparr>code = None, message = ''Unexpected token < in JSON at position 0''\<rparr>"
    by (simp add: predict_try_cases garbled_def)
  show ?thesis
    by (simp add: predict_handler_def t error_response_def classify_def spec_kind_of_status_def
          garbled_def)
qed

text \<open>
  C9, as the code has it. When the endpoint answers with a JSON value other than
  \<^verbatim>\<open>null\<close>, the answer of the handler has status 200 and is the spread of that value with
  six keys set: the request identifier, the two latencies, the completion timestamp, the
  endpoint and the version. Its keys are the keys of the result and those six, and every
  other key holds what it held in the result. When the handler fails, after validation has
  passed, the error answer carries the same request identifier, made from the same clock
  reading and random suffix, and the processing time. When validation fails, the answer is
  the validator's own and the handler does not run: it has neither a request identifier
  nor a processing time.
\<close>

theorem enriched_result_and_error_identifiers:
  "(endpoint [] (predict_params env d) = Resolved (Json result) \<and> \<not> is_nullish result \<longrightarrow>
      predict_handler endpoint env c d =
        (\<lparr>status = 200, json_body = JObject (enhancedResult env c result)\<rparr>,
         [predict_params env d]) \<and>
      fst ` set (enhancedResult env c result) =
        fst ` set (own_properties result) \<union> set metadata_keys \<and>
      (\<forall>k. k \<notin> set metadata_keys \<longrightarrow>
         js_get (JObject (enhancedResult env c result)) k =
           js_get (JObject (own_properties result)) k) \<and>
      js_get (JObject (enhancedResult env c result)) ''request_id'' = JString (requestId c) \<and>
      js_get (JObject (enhancedResult env c result)) ''backend_processing_time_ms'' =
        ms (endTime c - startTime c) \<and>
      js_get (JObject (enhancedResult env c result)) ''sagemaker_response_time_ms'' =
        ms (sagemakerEndTime c - sagemakerStartTime c) \<and>
      js_get (JObject (enhancedResult env c result)) ''processed_at'' = JString (timestamp c) \<and>
      js_get (JObject (enhancedResult env c result)) ''endpoint_used'' = endpointName env \<and>
      js_get (JObject (enhancedResult env c result)) ''backend_version'' = JString ''1.0.0'') \<and>
   (predict_try endpoint env c d = Inl error \<longrightarrow>
      js_get (json_body (fst (predict_handler endpoint env c d))) ''request_id'' =
        JString (requestId c) \<and>
      js_get (json_body (fst (predict_handler endpoint env c d))) ''processing_time_ms'' =
        ms (endTime c - startTime c)) \<and>
   (validatePredictionInput s2n (validationTimestamp c) body = Next d \<longrightarrow>
      predict_route s2n endpoint env c body = predict_handler endpoint env c d) \<and>
   (validatePredictionInput s2n (validationTimestamp c) body = Responded r \<longrightarrow>
      predict_route s2n endpoint env c body = (r, []) \<and>
      js_get (json_body r) ''request_id'' = JUndefined \<and>
      js_get (json_body r) ''processing_time_ms'' = JUndefined)"
proof (intro conjI impI allI)
  assume "endpoint [] (predict_params env d) = Resolved (Json result) \<and> \<not> is_nullish result"
  then show "predict_handler endpoint env c d =
        (\<lparr>status = 200, json_body = JObject (enhancedResult env c result)\<rparr>,
         [predict_params env d])"
    by (simp add: predict_handler_def predict_try_cases)
next
  show "fst ` set (enhancedResult env c result) =
        fst ` set (own_properties result) \<union> set metadata_keys"
    by (rule keys_enhancedResult)
next
  fix k
  assume "k \<notin> set metadata_keys"
  then show "js_get (JObject (enhancedResult env c result)) k =
           js_get (JObject (own_properties result)) k"
    by (rule js_get_enhancedResult)
next
  assume "predict_try endpoint env c d = Inl error"
  then show "js_get (json_body (fst (predict_handler endpoint env c d))) ''request_id'' =
        JString (requestId c)"
    and "js_get (json_body (fst (predict_handler endpoint env c d))) ''processing_time_ms'' =
        ms (endTime c - startTime c)"
    by (simp_all add: predict_handler_def error_response_def)
next
  assume "validatePredictionInput s2n (validationTimestamp c) body = Next d"
  then show "predict_route s2n endpoint env c body = predict_handler endpoint env c d"
    by (simp add: predict_route_def)
next
  assume r: "validatePredictionInput s2n (validationTimestamp c) body = Responded r"
  then show "predict_route s2n endpoint env c body = (r, [])"
    by (simp add: predict_route_def)
  from r show "js_get (json_body r) ''request_id'' = JUndefined"
    by (auto simp: validate_cases split: if_splits)
  from r show "js_get (json_body r) ''processing_time_ms'' = JUndefined"
    by (auto simp: validate_cases split: if_splits)
qed (rule js_get_enhancedResult_metadata)+

theorem enriched_result_and_error_identifiers_witness:
  "predict_handler fails_second env_development clock0 (JObject testData) =
     (\<lparr>status = 200, json_body = JObject
         [(''risk_level'', JString ''Low Risk''),
          (''probability'', JNumber (Fin (3 / 25))),
          (''request_id'', JString ''req_1700000000001_k3j9x2m1q''),
          (''backend_processing_time_ms'', ms 40),
          (''sagemaker_response_time_ms'', ms 38),
          (''processed_at'', JString ''2026-11-01T10:00:00.041Z''),
          (''endpoint_used'', JString ''diabetes-endpoint''),
          (''backend_version'', JString ''1.0.0'')]\<rparr>,
      [predict_params env_development (JObject testData)]) \<and>
   js_get (json_body (fst (predict_handler rejects env_development clock0 (JObject testData))))
       ''request_id'' = JString ''req_1700000000001_k3j9x2m1q'' \<and>
   js_get (json_body (fst (predict_handler rejects env_development clock0 (JObject testData))))
       ''processing_time_ms'' = ms 40"
proof -
  have g: "fails_second [] (predict_params env_development (JObject testData)) =
      Resolved (Json low_risk) \<and> \<not> is_nullish low_risk"
    by (simp add: fails_second_def low_risk_def is_nullish_def)
  have e: "enhancedResult env_development clock0 low_risk =
      [(''risk_level'', JString ''Low Risk''),
       (''probability'', JNumber (Fin (3 / 25))),
       (''request_id'', JString ''req_1700000000001_k3j9x2m1q''),
       (''backend_processing_time_ms'', ms 40),
       (''sagemaker_response_time_ms'', ms 38),
       (''processed_at'', JString ''2026-11-01T10:00:00.041Z''),
       (''endpoint_used'', JString ''diabetes-endpoint''),
       (''backend_version'', JString ''1.0.0'')]"
    by (simp add: enhancedResult_def low_risk_def requestId_clock0)
       (simp add: clock0_def env_development_def)
  have t: "predict_try rejects env_development clock0 (JObject testData) =
      Inl \<lparr>code = Some ''ModelError'', message = ''model container crashed''\<rparr>"
    by (simp add: predict_try_cases rejects_def)
  have v: "endTime clock0 - startTime clock0 = 40"
    by (simp add: clock0_def)
  note inst = enriched_result_and_error_identifiers
    [of _ env_development "JObject testData" _ clock0]
  from inst [of fails_second low_risk, THEN conjunct1, THEN mp, OF g, THEN conjunct1]
  have a: "predict_handler fails_second env_development clock0 (JObject testData) =
     (\<lparr>status = 200, json_body = JObject
         [(''risk_level'', JString ''Low Risk''),
          (''probability'', JNumber (Fin (3 / 25))),
          (''request_id'', JString ''req_1700000000001_k3j9x2m1q''),
          (''backend_processing_time_ms'', ms 40),
          (''sagemaker_response_time_ms'', ms 38),
          (''processed_at'', JString ''2026-11-01T10:00:00.041Z''),
          (''endpoint_used'', JString ''diabetes-endpoint''),
          (''backend_version'', JString ''1.0.0'')]\<rparr>,
      [predict_params env_development (JObject testData)])"
    by (simp only: e)
  from inst [of rejects, THEN conjunct2, THEN conjunct1, THEN mp, OF t]
  have b: "js_get (json_body (fst (predict_handler rejects env_development clock0 (JObject testData))))
       ''request_id'' = JString ''req_1700000000001_k3j9x2m1q'' \<and>
   js_get (json_body (fst (predict_handler rejects env_development clock0 (JObject testData))))
       ''processing_time_ms'' = ms 40"
    by (simp only: requestId_clock0 v)
  from a b show ?thesis by (intro conjI) simp_all
qed

text \<open>
  C9 as stated fails on "any failure": the record with an age of 15 fails validation, and
  the error answer of the route has no request identifier and no processing time.
\<close>

theorem validation_failure_has_no_request_id_counterexample:
  "predict_route StringToNumber rejects env_development clock0
       (testData_with ''Age'' (JNumber (Fin 15))) =
     (\<lparr>status = 400, json_body = JObject
         [(''error'', JString ''Invalid data ranges''),
          (''validation_errors'', JArray [JString ''Age must be a number between 18 and 120'']),
          (''timestamp'', JString ''2026-11-01T10:00:00.000Z'')]\<rparr>, []) \<and>
   js_get (json_body (fst (predict_route StringToNumber rejects env_development clock0
       (testData_with ''Age'' (JNumber (Fin 15)))))) ''request_id'' = JUndefined \<and>
   js_get (json_body (fst (predict_route StringToNumber rejects env_development clock0
       (testData_with ''Age'' (JNumber (Fin 15)))))) ''processing_time_ms'' = JUndefined"
proof -
  let ?d = "testData_with ''Age'' (JNumber (Fin 15))"
  have n: "\<not> is_nullish ?d" by (simp add: is_nullish_def testData_with_def)
  have m: "missingFields ?d = []"
    by (simp add: missingFields_def requiredFields_def testData_with_def testData_def is_missing_def)
  have t: "\<not> any_throws ?d requiredFields"
    by (simp add: any_throws_def requiredFields_def testData_with_def testData_def)
  have f: "failed_checks StringToNumber ?d checks = [''Age must be a number between 18 and 120'']"
    by (simp add: failed_checks_def checks_def testData_with_def testData_def numeric_def)
  have v: "validatePredictionInput StringToNumber ''2026-11-01T10:00:00.000Z'' ?d =
      Responded \<lparr>status = 400, json_body = JObject
        [(''error'', JString ''Invalid data ranges''),
         (''validation_errors'', JArray [JString ''Age must be a number between 18 and 120'']),
         (''timestamp'', JString ''2026-11-01T10:00:00.000Z'')]\<rparr>"
    by (simp only: validate_cases n m t f if_False if_True simp_thms list.simps not_Cons_self2)
  have c: "validationTimestamp clock0 = ''2026-11-01T10:00:00.000Z''"
    by (simp add: clock0_def)
  have r: "predict_route StringToNumber rejects env_development clock0 ?d =
     (\<lparr>status = 400, json_body = JObject
         [(''error'', JString ''Invalid data ranges''),
          (''validation_errors'', JArray [JString ''Age must be a number between 18 and 120'']),
          (''timestamp'', JString ''2026-11-01T10:00:00.000Z'')]\<rparr>, [])"
    by (simp add: predict_route_def v c)
  show ?thesis
    by (simp add: r)
qed


end
